theory Spec2Isabelle
  imports Complex_Main
begin

section \<open>The instrument model of isofit/instrument.py\<close>

text \<open>
  A shallow embedding of the class \<open>Instrument\<close>. Floating-point numbers are
  idealised as reals: rounding and overflow are outside the model. Two outcomes of
  the model are not exceptions of the program. Where numpy puts \<open>nan\<close> or \<open>inf\<close>
  into a result (division by zero, mean of no matrices) the model yields
  \<open>NonFinite\<close>. Where the program returns an array of complex numbers (a division
  by the root of a negative number of integrations) the model yields
  \<open>ComplexValued\<close>. So no real number stands for a value that the program does not
  compute.
\<close>

subsection \<open>Errors, arrays and configuration values\<close>

datatype error =
    KeyError | ValueError | TypeError | AttributeError | IndexError
  | ZeroDivisionError | IOError | NonFinite | ComplexValued

text \<open>A numpy array of floats of rank 0, 1 or 2 (a matrix is the list of its rows).\<close>

datatype ndarray = Arr0 real | Arr1 "real list" | Arr2 "real list list"

text \<open>A value of the configuration (parsed JSON): a dict keeps the order of its keys.\<close>

datatype cval = CNum real | CStr string | CList "cval list" | CDict "(string \<times> cval) list"

definition ebind :: "error + 'a \<Rightarrow> ('a \<Rightarrow> error + 'b) \<Rightarrow> error + 'b" where
  "ebind m f = (case m of Inl e \<Rightarrow> Inl e | Inr v \<Rightarrow> f v)"

text \<open>\<open>d[k]\<close> on a dict, and \<open>k in d\<close>.\<close>

definition getitem :: "(string \<times> cval) list \<Rightarrow> string \<Rightarrow> error + cval" where
  "getitem d k = (case map_of d k of None \<Rightarrow> Inl KeyError | Some v \<Rightarrow> Inr v)"

definition has_key :: "(string \<times> cval) list \<Rightarrow> string \<Rightarrow> bool" where
  "has_key d k = (map_of d k \<noteq> None)"

text \<open>Subscripting a configuration value with a string key: only a dict supports it.\<close>

definition subscript :: "cval \<Rightarrow> string \<Rightarrow> error + cval" where
  "subscript v k = (case v of CDict d \<Rightarrow> getitem d k | _ \<Rightarrow> Inl TypeError)"

text \<open>
  The tolerance of the module, \<open>wl_tol = 0.01\<close>, and the floor \<open>1e-5\<close> and threshold
  \<open>1e-6\<close> that the methods use.
\<close>

definition wl_tol :: real where
  "wl_tol = 1 / 100"

definition meas_floor :: real where
  "meas_floor = 1 / 100000"

definition bias_threshold :: real where
  "bias_threshold = 1 / 1000000"

subsection \<open>numpy operations on vectors and matrices\<close>

text \<open>
  An elementwise binary operation on two 1-D arrays with numpy's broadcasting: equal
  lengths, or one operand of length one; anything else raises \<open>ValueError\<close>.
\<close>

definition bc2 :: "('a \<Rightarrow> 'b \<Rightarrow> 'c) \<Rightarrow> 'a list \<Rightarrow> 'b list \<Rightarrow> error + 'c list" where
  "bc2 f xs ys =
     (if length xs = length ys then Inr (map2 f xs ys)
      else if length xs = 1 then Inr (map (f (hd xs)) ys)
      else if length ys = 1 then Inr (map (\<lambda>x. f x (hd ys)) xs)
      else Inl ValueError)"

text \<open>
  \<open>s.sqrt\<close> is the root of \<open>numpy.lib.scimath\<close>: a negative entry has its
  imaginary root, and an array without negative entries stays real. The result is
  given in the complex numbers, where a real root is the complex number of that value.
\<close>

definition scimath_sqrt :: "real list \<Rightarrow> complex list" where
  "scimath_sqrt xs = map (\<lambda>x. csqrt (complex_of_real x)) xs"

text \<open>\<open>s.diagflat\<close> of a 1-D array, and the elementwise \<open>pow(M, 2)\<close> of a matrix.\<close>

definition diagflat :: "real list \<Rightarrow> real list list" where
  "diagflat xs =
     map (\<lambda>i. map (\<lambda>j. if i = j then xs ! i else 0) [0..<length xs]) [0..<length xs]"

definition pow2 :: "real list list \<Rightarrow> real list list" where
  "pow2 m = map (map (\<lambda>x. x\<^sup>2)) m"

text \<open>The entries of an array in C order, and an elementwise map.\<close>

fun flat :: "ndarray \<Rightarrow> real list" where
  "flat (Arr0 x) = [x]"
| "flat (Arr1 v) = v"
| "flat (Arr2 m) = concat m"

fun nd_map :: "(real \<Rightarrow> real) \<Rightarrow> ndarray \<Rightarrow> ndarray" where
  "nd_map f (Arr0 x) = Arr0 (f x)"
| "nd_map f (Arr1 v) = Arr1 (map f v)"
| "nd_map f (Arr2 m) = Arr2 (map (map f) m)"

text \<open>
  \<open>a / s.sqrt(k)\<close> for an array \<open>a\<close> and a number \<open>k\<close>: for \<open>k < 0\<close> the root
  is imaginary and the quotient an array of complex numbers; for \<open>k = 0\<close> every
  entry of the quotient is \<open>nan\<close> or \<open>inf\<close> (an array without entries stays as it
  is).
\<close>

definition div_sqrt :: "ndarray \<Rightarrow> real \<Rightarrow> error + ndarray" where
  "div_sqrt a k =
     (if k < 0 then Inl ComplexValued
      else if flat a = [] then Inr a
      else if k = 0 then Inl NonFinite
      else Inr (nd_map (\<lambda>x. x / sqrt k) a))"

text \<open>
  \<open>s.squeeze\<close> of a 2-D array: the axes of length one are dropped. (A matrix without
  rows is taken to have no columns.)
\<close>

definition squeeze :: "real list list \<Rightarrow> ndarray" where
  "squeeze m =
     (if length m = 1 then (if length (hd m) = 1 then Arr0 (hd (hd m)) else Arr1 (hd m))
      else if m \<noteq> [] \<and> list_all (\<lambda>r. length r = 1) m then Arr1 (map hd m)
      else Arr2 m)"

text \<open>
  \<open>covs.mean(axis=0)\<close> of a stack of \<open>n \<times> n\<close> matrices: an empty stack gives \<open>nan\<close>
  entries (none when \<open>n = 0\<close>).
\<close>

definition mean_axis0 :: "nat \<Rightarrow> real list list list \<Rightarrow> error + real list list" where
  "mean_axis0 n cs =
     (if cs = [] \<and> 0 < n then Inl NonFinite
      else Inr (map (\<lambda>i. map (\<lambda>j. sum_list (map (\<lambda>c. c ! i ! j) cs) / real (length cs))
                               [0..<n]) [0..<n]))"

text \<open>
  \<open>a[i]\<close> on the first axis of an array with a Python integer: an index from
  \<open>-len(a)\<close> to \<open>-1\<close> addresses the array from its end.
\<close>

definition index_axis0 :: "'a list \<Rightarrow> int \<Rightarrow> error + 'a" where
  "index_axis0 xs i =
     (if 0 \<le> i \<and> i < int (length xs) then Inr (xs ! nat i)
      else if - int (length xs) \<le> i \<and> i < 0 then Inr (xs ! nat (int (length xs) + i))
      else Inl IndexError)"

text \<open>A number of the configuration used in arithmetic.\<close>

definition as_number :: "cval \<Rightarrow> error + real" where
  "as_number v = (case v of CNum r \<Rightarrow> Inr r | _ \<Rightarrow> Inl TypeError)"

subsection \<open>The instance\<close>

datatype noise_model = SNR | Parametric | Pushbroom

text \<open>
  The attributes of an instance. An attribute that the constructor sets on some paths
  only is optional: \<open>None\<close> is the attribute that was never assigned, and reading it
  raises \<open>AttributeError\<close>. No statement of the class assigns \<open>prior_sigma\<close>.
  A row of \<open>noise\<close> is the triple \<open>[p_a(w), p_b(w), p_c(w)]\<close>.
\<close>

record instrument =
  wl_init :: "real list"
  fwhm_init :: "real list"
  n_chan :: nat
  bounds :: "cval list"
  scale :: "cval list"
  statevec :: "string list"
  init_val :: "cval list"
  n_state :: nat
  model_type :: "noise_model option"
  snr :: "real option"
  noise_file :: "cval option"
  noise :: "(real \<times> real \<times> real) list option"
  ncols :: "nat option"
  covs :: "real list list list option"
  integrations :: cval
  bval :: "real list"
  calibration_fixed :: bool
  prior_sigma :: "real list option"

definition attr :: "'a option \<Rightarrow> error + 'a" where
  "attr a = (case a of None \<Rightarrow> Inl AttributeError | Some v \<Rightarrow> Inr v)"

record geom =
  pushbroom_column :: "int option"

subsection \<open>Sy: the measurement error covariance\<close>

text \<open>
  The call \<open>Sy(meas, geom)\<close> can write to two objects, the instance and the caller's
  array \<open>meas\<close>: the model takes both and returns both with the result.
\<close>

record sy_state =
  self :: instrument
  meas :: "real list"

text \<open>\<open>bad = meas < 1e-5; meas[bad] = 1e-5\<close>\<close>

definition clamp_floor :: "real list \<Rightarrow> real list" where
  "clamp_floor ms = map (\<lambda>m. if m < meas_floor then meas_floor else m) ms"

definition Sy_SNR :: "sy_state \<Rightarrow> (error + ndarray) \<times> sy_state" where
  "Sy_SNR st =
     (let st' = st\<lparr>meas := clamp_floor (meas st)\<rparr> in
      (ebind (attr (snr (self st'))) (\<lambda>r.
         if r = 0 then Inl ZeroDivisionError
         else let nedl = map (\<lambda>m. (1 / r) * m) (meas st')
              in Inr (Arr2 (pow2 (diagflat nedl)))),
       st'))"

text \<open>
  \<open>abs(noise[:, 0]*s.sqrt(noise[:, 1]+meas)+noise[:, 2])\<close>, then the division by
  \<open>s.sqrt(integrations)\<close>. An empty \<open>noise\<close> is a 1-D array, which \<open>noise[:, 0]\<close>
  cannot index. \<open>abs\<close> of a complex number is its modulus, a real number; for the
  complex number of a real value it is the absolute value.
\<close>

definition parametric_nedl0 :: "(real \<times> real \<times> real) list \<Rightarrow> real list \<Rightarrow> error + real list" where
  "parametric_nedl0 nz ms =
     (if nz = [] then Inl IndexError
      else ebind (bc2 (+) (map (\<lambda>(a, b, c). b) nz) ms) (\<lambda>t.
           ebind (bc2 (\<lambda>a z. complex_of_real a * z) (map (\<lambda>(a, b, c). a) nz)
                    (scimath_sqrt t)) (\<lambda>p.
           ebind (bc2 (\<lambda>z c. z + complex_of_real c) p (map (\<lambda>(a, b, c). c) nz)) (\<lambda>q.
           Inr (map cmod q)))))"

definition parametric_nedl :: "instrument \<Rightarrow> real list \<Rightarrow> error + real list" where
  "parametric_nedl slf ms =
     ebind (attr (noise slf)) (\<lambda>nz.
     ebind (parametric_nedl0 nz ms) (\<lambda>nedl0.
     ebind (as_number (integrations slf)) (\<lambda>k.
     ebind (div_sqrt (Arr1 nedl0) k) (\<lambda>a. Inr (flat a)))))"

definition Sy_parametric :: "sy_state \<Rightarrow> (error + ndarray) \<times> sy_state" where
  "Sy_parametric st =
     (ebind (parametric_nedl (self st) (meas st)) (\<lambda>nedl.
        Inr (Arr2 (pow2 (diagflat nedl)))),
      st)"

definition Sy_pushbroom :: "sy_state \<Rightarrow> geom \<Rightarrow> (error + ndarray) \<times> sy_state" where
  "Sy_pushbroom st g =
     (ebind (attr (covs (self st))) (\<lambda>cs.
      ebind (case pushbroom_column g of
               None \<Rightarrow> ebind (mean_axis0 (n_chan (self st)) cs) (\<lambda>m. Inr (squeeze m))
             | Some col \<Rightarrow> ebind (index_axis0 cs col) (\<lambda>m. Inr (Arr2 m))) (\<lambda>C.
      ebind (as_number (integrations (self st))) (\<lambda>k.
      div_sqrt C k))),
      st)"

definition Sy :: "sy_state \<Rightarrow> geom \<Rightarrow> (error + ndarray) \<times> sy_state" where
  "Sy st g =
     (case model_type (self st) of
        None \<Rightarrow> (Inl AttributeError, st)
      | Some SNR \<Rightarrow> Sy_SNR st
      | Some Parametric \<Rightarrow> Sy_parametric st
      | Some Pushbroom \<Rightarrow> Sy_pushbroom st g)"

subsection \<open>The collaborators\<close>

text \<open>
  The functions that the module imports and calls: \<open>load_wavelen\<close>,
  \<open>resample_spectrum\<close>, \<open>srf\<close> and the step \<open>eps\<close> of the module \<open>common\<close>,
  and \<open>loadtxt\<close>, \<open>loadmat\<close>, \<open>interp1d\<close> and \<open>convolve\<close> of scipy. They are
  parameters of the model; each may raise. \<open>parse_float\<close> is Python's reading of a
  string as a float. A matrix container read by \<open>loadmat\<close> exposes the scalars
  \<open>columns\<close> and \<open>bands\<close> and the entries of \<open>covariances\<close> in C order.
\<close>

record matfile =
  mat_columns :: nat
  mat_bands :: int
  mat_covariances :: "real list"

record env =
  load_wavelen :: "cval \<Rightarrow> error + (real list \<times> real list)"
  loadtxt :: "string \<Rightarrow> error + ndarray"
  loadmat :: "string \<Rightarrow> error + matfile"
  interp1d :: "real list \<Rightarrow> real list \<Rightarrow> error + (real \<Rightarrow> real)"
  resample_spectrum :: "real list \<Rightarrow> real list \<Rightarrow> real list \<Rightarrow> real list \<Rightarrow> error + real list"
  srf :: "real list \<Rightarrow> real \<Rightarrow> real \<Rightarrow> error + real list"
  convolve_same :: "real list \<Rightarrow> real list \<Rightarrow> error + real list"
  eps :: real
  parse_float :: "string \<Rightarrow> real option"

subsection \<open>calibration and sample\<close>

text \<open>\<open>xs.index(x)\<close> for an element that is in the list, and \<open>x[ind]\<close> on the state.\<close>

fun index_of :: "'a list \<Rightarrow> 'a \<Rightarrow> nat" where
  "index_of [] x = 0"
| "index_of (y # ys) x = (if y = x then 0 else Suc (index_of ys x))"

definition state_at :: "real list \<Rightarrow> nat \<Rightarrow> error + real" where
  "state_at x i = (if i < length x then Inr (x ! i) else Inl IndexError)"

definition calibration :: "instrument \<Rightarrow> real list \<Rightarrow> error + (real list \<times> real list)" where
  "calibration slf x =
     ebind (if ''FWHM_SCL'' \<in> set (statevec slf)
            then ebind (state_at x (index_of (statevec slf) ''FWHM_SCL'')) (\<lambda>v.
                   Inr (map (\<lambda>f. f + v) (fwhm_init slf)))
            else Inr (fwhm_init slf)) (\<lambda>fwhm.
     ebind (if ''WL_SHIFT'' \<in> set (statevec slf)
            then ebind (state_at x (index_of (statevec slf) ''WL_SHIFT'')) (\<lambda>v.
                   Inr (map (\<lambda>w. w + v) (wl_init slf)))
            else Inr (wl_init slf)) (\<lambda>wl.
     Inr (wl, fwhm)))"

text \<open>A comprehension \<open>[f(r) for r in rows]\<close> whose body may raise.\<close>

fun map_e :: "('a \<Rightarrow> error + 'b) \<Rightarrow> 'a list \<Rightarrow> error + 'b list" where
  "map_e f [] = Inr []"
| "map_e f (x # xs) = ebind (f x) (\<lambda>y. ebind (map_e f xs) (\<lambda>ys. Inr (y # ys)))"

text \<open>
  The guard of the fast path, \<open>self.calibration_fixed and all((self.wl_init - wl_hi) < wl_tol)\<close>:
  the difference is computed only when \<open>calibration_fixed\<close> holds.
\<close>

definition fast_path :: "instrument \<Rightarrow> real list \<Rightarrow> error + bool" where
  "fast_path slf wl_hi =
     (if calibration_fixed slf
      then ebind (bc2 (-) (wl_init slf) wl_hi) (\<lambda>d. Inr (list_all (\<lambda>v. v < wl_tol) d))
      else Inr False)"

definition sample :: "env \<Rightarrow> instrument \<Rightarrow> real list \<Rightarrow> real list \<Rightarrow> ndarray \<Rightarrow> error + ndarray" where
  "sample ev slf x wl_hi rdn_hi =
     ebind (fast_path slf wl_hi) (\<lambda>fast.
       if fast then Inr rdn_hi
       else ebind (calibration slf x) (\<lambda>(wl, fwhm).
         case rdn_hi of
           Arr1 r \<Rightarrow> ebind (resample_spectrum ev r wl_hi wl fwhm) (\<lambda>v. Inr (Arr1 v))
         | Arr2 rows \<Rightarrow>
             ebind (map_e (\<lambda>r. resample_spectrum ev r wl_hi wl fwhm) rows) (\<lambda>resamp.
               Inr (if resamp = [] then Arr1 [] else Arr2 resamp))
         | Arr0 v \<Rightarrow> Inl TypeError))"

subsection \<open>xa and Sa\<close>

definition xa :: "instrument \<Rightarrow> cval list" where
  "xa slf = init_val slf"

text \<open>
  \<open>if self.n_state == 0: return s.zeros((0,0)); return s.diagflat(pow(self.prior_sigma, 2))\<close>
\<close>

definition Sa :: "instrument \<Rightarrow> error + real list list" where
  "Sa slf =
     (if n_state slf = 0 then Inr []
      else ebind (attr (prior_sigma slf)) (\<lambda>ps. Inr (diagflat (map (\<lambda>x. x\<^sup>2) ps))))"

subsection \<open>dmeas_dinstrument\<close>

text \<open>
  Python's \<open>range\<close> takes an integer; any other object raises \<open>TypeError\<close>. The
  arguments that the module passes are an integer or a list of names.
\<close>

datatype pyobj = PyInt int | PyNames "string list"

fun py_range :: "pyobj \<Rightarrow> error + nat list" where
  "py_range (PyInt n) = Inr [0..<nat n]"
| "py_range (PyNames ns) = Inl TypeError"

text \<open>Elementwise \<open>a - b\<close> of two arrays of the same rank (1-D operands broadcast).\<close>

fun nd_sub :: "ndarray \<Rightarrow> ndarray \<Rightarrow> error + ndarray" where
  "nd_sub (Arr0 a) b = Inr (nd_map (\<lambda>y. a - y) b)"
| "nd_sub a (Arr0 b) = Inr (nd_map (\<lambda>x. x - b) a)"
| "nd_sub (Arr1 a) (Arr1 b) = ebind (bc2 (-) a b) (\<lambda>v. Inr (Arr1 v))"
| "nd_sub (Arr2 a) (Arr2 b) =
     (if length a = length b
      then ebind (map_e (\<lambda>(r, s). bc2 (-) r s) (zip a b)) (\<lambda>m. Inr (Arr2 m))
      else Inl ValueError)"
| "nd_sub (Arr1 a) (Arr2 b) = ebind (map_e (\<lambda>s. bc2 (-) a s) b) (\<lambda>m. Inr (Arr2 m))"
| "nd_sub (Arr2 a) (Arr1 b) = ebind (map_e (\<lambda>r. bc2 (-) r b) a) (\<lambda>m. Inr (Arr2 m))"

text \<open>
  \<open>M[:, j] = v\<close>: the column \<open>j\<close> of a matrix with \<open>n\<close> rows takes a 1-D array of
  length \<open>n\<close>, or a single value, which is repeated; another shape raises
  \<open>ValueError\<close>.
\<close>

definition column_of :: "nat \<Rightarrow> ndarray \<Rightarrow> error + real list" where
  "column_of n v =
     (case v of
        Arr0 x \<Rightarrow> Inr (replicate n x)
      | Arr1 xs \<Rightarrow>
          (if length xs = n then Inr xs
           else if length xs = 1 then Inr (replicate n (hd xs))
           else Inl ValueError)
      | Arr2 rows \<Rightarrow>
          (if length rows = 1 \<and> length (hd rows) = n then Inr (hd rows)
           else if length rows = 1 \<and> length (hd rows) = 1 then Inr (replicate n (hd (hd rows)))
           else Inl ValueError))"

definition set_column :: "real list list \<Rightarrow> nat \<Rightarrow> ndarray \<Rightarrow> error + real list list" where
  "set_column m j v =
     ebind (column_of (length m) v) (\<lambda>col.
       Inr (map (\<lambda>(row, c). row[j := c]) (zip m col)))"

text \<open>
  One pass of the loop: perturb entry \<open>ind\<close> of the state by \<open>eps\<close>, sample again,
  and store the difference quotient in column \<open>ind\<close>. A zero step gives \<open>nan\<close> or
  \<open>inf\<close>.
\<close>

definition fd_step ::
  "env \<Rightarrow> instrument \<Rightarrow> real list \<Rightarrow> real list \<Rightarrow> ndarray \<Rightarrow> ndarray \<Rightarrow> nat \<Rightarrow> real list list
     \<Rightarrow> error + real list list" where
  "fd_step ev slf x wl_hi rdn_hi ms ind jac =
     ebind (state_at x ind) (\<lambda>xi.
     ebind (sample ev slf (x[ind := xi + eps ev]) wl_hi rdn_hi) (\<lambda>meas_perturb.
     ebind (nd_sub meas_perturb ms) (\<lambda>d.
     if eps ev = 0 \<and> flat d \<noteq> [] then Inl NonFinite
     else set_column jac ind (nd_map (\<lambda>v. v / eps ev) d))))"

fun fd_loop ::
  "env \<Rightarrow> instrument \<Rightarrow> real list \<Rightarrow> real list \<Rightarrow> ndarray \<Rightarrow> ndarray \<Rightarrow> nat list \<Rightarrow> real list list
     \<Rightarrow> error + real list list" where
  "fd_loop ev slf x wl_hi rdn_hi ms [] jac = Inr jac"
| "fd_loop ev slf x wl_hi rdn_hi ms (ind # inds) jac =
     ebind (fd_step ev slf x wl_hi rdn_hi ms ind jac) (fd_loop ev slf x wl_hi rdn_hi ms inds)"

text \<open>
  \<open>s.zeros((n_chan, n_state))\<close> is returned at once when \<open>n_state == 0\<close>. Otherwise
  the loop runs over \<open>range(self.statevec)\<close>, the range of the list of names.
\<close>

definition dmeas_dinstrument ::
  "env \<Rightarrow> instrument \<Rightarrow> real list \<Rightarrow> real list \<Rightarrow> ndarray \<Rightarrow> error + real list list" where
  "dmeas_dinstrument ev slf x wl_hi rdn_hi =
     (let jac = replicate (n_chan slf) (replicate (n_state slf) 0) in
      if n_state slf = 0 then Inr jac
      else ebind (sample ev slf x wl_hi rdn_hi) (\<lambda>ms.
           ebind (py_range (PyNames (statevec slf))) (\<lambda>inds.
           fd_loop ev slf x wl_hi rdn_hi ms inds jac)))"

subsection \<open>dmeas_dinstrumentb\<close>

text \<open>\<open>s.diff\<close> of a 1-D array, and \<open>s.arange(-10, 11)\<close>.\<close>

definition diff1 :: "real list \<Rightarrow> real list" where
  "diff1 r = map2 (\<lambda>b a. b - a) (tl r) r"

definition arange_10 :: "real list" where
  "arange_10 = map real_of_int [-10..10]"

text \<open>
  \<open>s.hstack((s.diagflat(meas), s.zeros((self.n_chan, 2))))\<close>: both blocks must have
  \<open>n_chan\<close> rows.
\<close>

definition radiometric_block :: "nat \<Rightarrow> ndarray \<Rightarrow> error + real list list" where
  "radiometric_block n ms =
     (if length (flat ms) = n then Inr (map (\<lambda>row. row @ [0, 0]) (diagflat (flat ms)))
      else Inl ValueError)"

text \<open>
  \<open>s.hstack((s.diff(rdn_hi), s.array([0])))\<close>: only a 1-D \<open>rdn_hi\<close> can be joined
  with the 1-D array \<open>[0]\<close>.
\<close>

definition shifted_radiance :: "ndarray \<Rightarrow> error + ndarray" where
  "shifted_radiance rdn_hi =
     (case rdn_hi of Arr1 r \<Rightarrow> Inr (Arr1 (diff1 r @ [0]))
      | _ \<Rightarrow> Inl ValueError)"

text \<open>
  \<open>ssrf = srf(s.arange(-10,11), 0, 4); blur = convolve(meas, ssrf, mode='same')\<close> and
  the difference \<open>blur - meas\<close>: \<open>convolve\<close> takes two arrays of the same rank.
\<close>

definition stray_column :: "env \<Rightarrow> ndarray \<Rightarrow> error + ndarray" where
  "stray_column ev ms =
     ebind (srf ev arange_10 0 4) (\<lambda>ssrf.
     ebind (case ms of Arr1 m \<Rightarrow> convolve_same ev m ssrf | _ \<Rightarrow> Inl ValueError) (\<lambda>blur.
     nd_sub (Arr1 blur) ms))"

definition dmeas_dinstrumentb ::
  "env \<Rightarrow> instrument \<Rightarrow> real list \<Rightarrow> real list \<Rightarrow> ndarray \<Rightarrow> error + real list list" where
  "dmeas_dinstrumentb ev slf x wl_hi rdn_hi =
     ebind (sample ev slf x wl_hi rdn_hi) (\<lambda>ms.
     ebind (radiometric_block (n_chan slf) ms) (\<lambda>jac0.
     ebind (index_axis0 (bval slf) (- 2)) (\<lambda>b_spectral.
     ebind (if b_spectral > bias_threshold
            then ebind (shifted_radiance rdn_hi) (\<lambda>d.
                 ebind (sample ev slf x wl_hi d) (\<lambda>col.
                 set_column jac0 (n_chan slf) col))
            else Inr jac0) (\<lambda>jac1.
     ebind (index_axis0 (bval slf) (- 1)) (\<lambda>b_stray.
     if b_stray > bias_threshold
     then ebind (stray_column ev ms) (\<lambda>col. set_column jac1 (n_chan slf + 1) col)
     else Inr jac1)))))"

subsection \<open>The constructor\<close>

text \<open>\<open>float(v)\<close> for a value of the configuration.\<close>

definition py_float :: "env \<Rightarrow> cval \<Rightarrow> error + real" where
  "py_float ev v =
     (case v of
        CNum r \<Rightarrow> Inr r
      | CStr s \<Rightarrow> (case parse_float ev s of None \<Rightarrow> Inl ValueError | Some r \<Rightarrow> Inr r)
      | _ \<Rightarrow> Inl TypeError)"

text \<open>
  \<open>bval[i] = v\<close>, a value of the configuration stored into an array of floats: a
  number is stored, a string is read as a float, a sequence is refused with
  \<open>ValueError\<close> and a dict with \<open>TypeError\<close>.
\<close>

definition np_store :: "env \<Rightarrow> cval \<Rightarrow> error + real" where
  "np_store ev v =
     (case v of
        CNum r \<Rightarrow> Inr r
      | CStr s \<Rightarrow> (case parse_float ev s of None \<Rightarrow> Inl ValueError | Some r \<Rightarrow> Inr r)
      | CList vs \<Rightarrow> Inl ValueError
      | CDict d \<Rightarrow> Inl TypeError)"

definition endswith :: "string \<Rightarrow> string \<Rightarrow> bool" where
  "endswith s suf = (length suf \<le> length s \<and> drop (length s - length suf) s = suf)"

text \<open>
  \<open>for key in config['statevector']\<close>: the keys of a dict in their order. An empty
  list or string gives no pass; any other value fails in the first pass or before
  it (the kind of the error is taken to be \<open>TypeError\<close>).
\<close>

fun statevector_keys :: "cval \<Rightarrow> error + string list" where
  "statevector_keys (CDict d) = Inr (map fst d)"
| "statevector_keys (CList []) = Inr []"
| "statevector_keys (CStr []) = Inr []"
| "statevector_keys v = Inl TypeError"

text \<open>
  The four lists after the loop, in the order \<open>statevec, init_val, bounds, scale\<close>.
\<close>

fun load_statevector ::
  "cval \<Rightarrow> string list \<Rightarrow> error + (string list \<times> cval list \<times> cval list \<times> cval list)" where
  "load_statevector sv [] = Inr ([], [], [], [])"
| "load_statevector sv (key # keys) =
     ebind (subscript sv key) (\<lambda>entry.
     ebind (subscript entry ''init'') (\<lambda>i.
     ebind (subscript entry ''bounds'') (\<lambda>b.
     ebind (subscript entry ''scale'') (\<lambda>c.
     ebind (load_statevector sv keys) (\<lambda>(ks, is, bs, cs).
     Inr (key # ks, i # is, b # bs, c # cs))))))"

definition init_statevector ::
  "(string \<times> cval) list \<Rightarrow> error + (string list \<times> cval list \<times> cval list \<times> cval list)" where
  "init_statevector config =
     (if has_key config ''statevector''
      then ebind (getitem config ''statevector'') (\<lambda>sv.
           ebind (statevector_keys sv) (load_statevector sv))
      else Inr ([], [], [], []))"

text \<open>\<open>coeffs[:, j]\<close>: the column of a 2-D array that has it.\<close>

definition column :: "ndarray \<Rightarrow> nat \<Rightarrow> error + real list" where
  "column a j =
     (case a of
        Arr2 m \<Rightarrow>
          (if m \<noteq> [] \<and> list_all (\<lambda>r. j < length r) m then Inr (map (\<lambda>r. r ! j) m)
           else Inl IndexError)
      | _ \<Rightarrow> Inl IndexError)"

text \<open>
  \<open>D['covariances'].reshape((ncols, n_chan, n_chan))\<close>: the entries in C order, cut
  into \<open>ncols\<close> matrices of \<open>n_chan\<close> rows of \<open>n_chan\<close> entries; another number of
  entries raises \<open>ValueError\<close>.
\<close>

definition reshape2 :: "nat \<Rightarrow> nat \<Rightarrow> real list \<Rightarrow> real list list" where
  "reshape2 r c xs = map (\<lambda>i. take c (drop (i * c) xs)) [0..<r]"

definition reshape3 :: "nat \<Rightarrow> nat \<Rightarrow> nat \<Rightarrow> real list \<Rightarrow> error + real list list list" where
  "reshape3 k r c xs =
     (if length xs = k * r * c
      then Inr (map (\<lambda>i. reshape2 r c (take (r * c) (drop (i * (r * c)) xs))) [0..<k])
      else Inl ValueError)"

text \<open>The parametric branch: the three interpolants evaluated at every wavelength.\<close>

definition init_parametric :: "env \<Rightarrow> string \<Rightarrow> instrument \<Rightarrow> error + instrument" where
  "init_parametric ev f slf =
     ebind (loadtxt ev f) (\<lambda>coeffs.
     ebind (column coeffs 0) (\<lambda>w.
     ebind (column coeffs 1) (\<lambda>a.
     ebind (interp1d ev w a) (\<lambda>p_a.
     ebind (column coeffs 2) (\<lambda>b.
     ebind (interp1d ev w b) (\<lambda>p_b.
     ebind (column coeffs 3) (\<lambda>c.
     ebind (interp1d ev w c) (\<lambda>p_c.
     Inr (slf\<lparr>model_type := Some Parametric,
               noise := Some (map (\<lambda>w. (p_a w, p_b w, p_c w)) (wl_init slf))\<rparr>)))))))))"

text \<open>
  The pushbroom branch: \<open>if self.n_chan != s.sqrt(D['bands'][0, 0]): raise ValueError\<close>
  (the root of a negative number is imaginary and differs from every channel count).
\<close>

definition init_pushbroom :: "env \<Rightarrow> string \<Rightarrow> instrument \<Rightarrow> error + instrument" where
  "init_pushbroom ev f slf =
     ebind (loadmat ev f) (\<lambda>D.
     if mat_bands D < 0 \<or> real (n_chan slf) \<noteq> sqrt (real_of_int (mat_bands D))
     then Inl ValueError
     else ebind (reshape3 (mat_columns D) (n_chan slf) (n_chan slf) (mat_covariances D)) (\<lambda>cs.
          Inr (slf\<lparr>model_type := Some Pushbroom,
                    ncols := Some (mat_columns D),
                    covs := Some cs\<rparr>)))"

definition init_noise :: "env \<Rightarrow> (string \<times> cval) list \<Rightarrow> instrument \<Rightarrow> error + instrument" where
  "init_noise ev config slf =
     (if has_key config ''SNR''
      then ebind (getitem config ''SNR'') (\<lambda>v.
           ebind (py_float ev v) (\<lambda>r.
           Inr (slf\<lparr>model_type := Some SNR, snr := Some r\<rparr>)))
      else ebind (getitem config ''noise_file'') (\<lambda>nf.
           case nf of
             CStr f \<Rightarrow>
               (if endswith f ''.txt'' then init_parametric ev f (slf\<lparr>noise_file := Some nf\<rparr>)
                else if endswith f ''.mat'' then init_pushbroom ev f (slf\<lparr>noise_file := Some nf\<rparr>)
                else Inr (slf\<lparr>noise_file := Some nf\<rparr>))
           | _ \<Rightarrow> Inl AttributeError))"

text \<open>
  One pass of the loop over \<open>config['unknowns'].items()\<close>, on the first \<open>n_chan\<close>
  entries of \<open>bval\<close>: the array \<open>u\<close> of the entry, then
  \<open>bval[:n_chan] = bval[:n_chan] + pow(u, 2)\<close>.
\<close>

definition special_unknowns :: "string list" where
  "special_unknowns = [''wavelength_calibration_uncertainty'']"

definition unknown_file :: "env \<Rightarrow> string \<Rightarrow> error + ndarray" where
  "unknown_file ev f =
     ebind (loadtxt ev f) (\<lambda>u.
       case u of
         Arr0 x \<Rightarrow> Inr u
       | Arr1 v \<Rightarrow> Inl IndexError
       | Arr2 m \<Rightarrow>
           (if m \<noteq> [] \<and> 1 < length (hd m) then ebind (column u 1) (\<lambda>v. Inr (Arr1 v))
            else Inr u))"

fun numbers :: "cval list \<Rightarrow> error + real list" where
  "numbers [] = Inr []"
| "numbers (CNum r # vs) = ebind (numbers vs) (\<lambda>rs. Inr (r # rs))"
| "numbers (v # vs) = Inl TypeError"

definition unknown_value :: "nat \<Rightarrow> cval \<Rightarrow> error + ndarray" where
  "unknown_value n val =
     (case val of
        CNum r \<Rightarrow> Inr (Arr1 (replicate n r))
      | CList vs \<Rightarrow> ebind (numbers vs) (\<lambda>rs.
                    ebind (bc2 (*) (replicate n 1) rs) (\<lambda>v. Inr (Arr1 v)))
      | _ \<Rightarrow> Inl TypeError)"

definition add_squares :: "real list \<Rightarrow> ndarray \<Rightarrow> error + real list" where
  "add_squares rad u =
     (case u of
        Arr0 x \<Rightarrow> Inr (map (\<lambda>b. b + x\<^sup>2) rad)
      | Arr1 v \<Rightarrow>
          (if length v = length rad then Inr (map2 (\<lambda>b x. b + x\<^sup>2) rad v)
           else if length v = 1 then Inr (map (\<lambda>b. b + (hd v)\<^sup>2) rad)
           else Inl ValueError)
      | Arr2 m \<Rightarrow>
          (if length m = 1 \<and> length (hd m) = 1 then Inr (map (\<lambda>b. b + (hd (hd m))\<^sup>2) rad)
           else Inl ValueError))"

fun unknowns_loop :: "env \<Rightarrow> (string \<times> cval) list \<Rightarrow> real list \<Rightarrow> error + real list" where
  "unknowns_loop ev [] rad = Inr rad"
| "unknowns_loop ev ((key, val) # items) rad =
     (if key \<in> set special_unknowns then unknowns_loop ev items rad
      else ebind (case val of CStr f \<Rightarrow> unknown_file ev f
                             | _ \<Rightarrow> unknown_value (length rad) val) (\<lambda>u.
           ebind (add_squares rad u) (unknowns_loop ev items)))"

text \<open>
  \<open>bval\<close>: zeros, the root sum square of the radiometric unknowns in the first
  \<open>n_chan\<close> entries, then \<open>bval[-2]\<close> and \<open>bval[-1]\<close>. The first of the two tests
  looks in \<open>config['unknowns']\<close>, the second in \<open>config\<close>.
\<close>

definition init_bval :: "env \<Rightarrow> (string \<times> cval) list \<Rightarrow> nat \<Rightarrow> error + real list" where
  "init_bval ev config n =
     (let bval0 = replicate (n + 2) 0 in
      if has_key config ''unknowns''
      then ebind (getitem config ''unknowns'') (\<lambda>u.
           case u of
             CDict items \<Rightarrow>
               ebind (unknowns_loop ev items (take n bval0)) (\<lambda>rad.
               let bval1 = map sqrt rad @ drop n bval0 in
               ebind (if has_key items ''wavelength_calibration_uncertainty''
                      then ebind (getitem items ''wavelength_calibration_uncertainty'') (\<lambda>v.
                           ebind (np_store ev v) (\<lambda>r. Inr (bval1[n := r])))
                      else Inr bval1) (\<lambda>bval2.
               if has_key config ''stray_srf_uncertainty''
               then ebind (getitem items ''stray_srf_uncertainty'') (\<lambda>v.
                    ebind (np_store ev v) (\<lambda>r. Inr (bval2[n + 1 := r])))
               else Inr bval2))
           | _ \<Rightarrow> Inl AttributeError)
      else Inr bval0)"

text \<open>
  \<open>Instrument(config)\<close>. The list of names \<open>bvec\<close> is not part of the model. The
  attributes that are assigned later in the constructor hold no value of the
  configuration until then.
\<close>

definition Instrument :: "env \<Rightarrow> (string \<times> cval) list \<Rightarrow> error + instrument" where
  "Instrument ev config =
     ebind (getitem config ''wavelength_file'') (\<lambda>wf.
     ebind (load_wavelen ev wf) (\<lambda>(wl, fwhm).
     ebind (init_statevector config) (\<lambda>(ks, is, bs, cs).
     ebind (init_noise ev config
              \<lparr>wl_init = wl, fwhm_init = fwhm, n_chan = length wl,
               bounds = bs, scale = cs, statevec = ks, init_val = is,
               n_state = length ks,
               model_type = None, snr = None, noise_file = None, noise = None,
               ncols = None, covs = None,
               integrations = CList [], bval = [], calibration_fixed = False,
               prior_sigma = None\<rparr>) (\<lambda>slf.
     ebind (getitem config ''integrations'') (\<lambda>ig.
     ebind (init_bval ev config (n_chan slf)) (\<lambda>bv.
     Inr (slf\<lparr>integrations := ig, bval := bv,
               calibration_fixed := (''FWHM_SCL'' \<notin> set (statevec slf)
                                     \<and> ''WL_SHIFT'' \<notin> set (statevec slf))\<rparr>)))))))"

subsection \<open>Reference notions of the specification\<close>

text \<open>
  The mean over the column axis of a stack of \<open>n \<times> n\<close> matrices, entry by entry, and
  a matrix scaled by \<open>1 / sqrt k\<close>.
\<close>

definition column_mean :: "nat \<Rightarrow> real list list list \<Rightarrow> real list list" where
  "column_mean n cs =
     map (\<lambda>i. map (\<lambda>j. (\<Sum>c\<leftarrow>cs. c ! i ! j) / real (length cs)) [0..<n]) [0..<n]"

definition scaled :: "real \<Rightarrow> real list list \<Rightarrow> real list list" where
  "scaled k m = map (map (\<lambda>x. x / sqrt k)) m"

subsection \<open>Example configurations\<close>

text \<open>
  Collaborators for the examples: three channels at 500, 510 and 520 nm, a coefficient
  table with constant coefficients, and a container with two \<open>3 \<times> 3\<close> covariances.
\<close>

definition example_env :: env where
  "example_env =
     \<lparr>load_wavelen = (\<lambda>v. Inr ([500, 510, 520], [10, 10, 10])),
      loadtxt = (\<lambda>f. Inr (Arr2 [[400, 1, 2, 3], [600, 1, 2, 3]])),
      loadmat = (\<lambda>f. Inr \<lparr>mat_columns = 2, mat_bands = 9,
                            mat_covariances = [1, 0, 0, 0, 1, 0, 0, 0, 1, 3, 2, 0, 2, 3, 0, 0, 0, 5]\<rparr>),
      interp1d = (\<lambda>xs ys. Inr (\<lambda>w. hd ys)),
      resample_spectrum = (\<lambda>r wl_hi wl fwhm. Inr (map (\<lambda>w. sum_list r) wl)),
      srf = (\<lambda>xs mu sigma. Inr (map (\<lambda>x. 1 / 21) xs)),
      convolve_same = (\<lambda>a b. Inr (map (\<lambda>v. sum_list b * v) a)),
      eps = 1 / 1000000,
      parse_float = (\<lambda>s. None)\<rparr>"

definition snr_config :: "(string \<times> cval) list" where
  "snr_config =
     [(''wavelength_file'', CStr ''wavelengths.txt''),
      (''SNR'', CNum 100),
      (''integrations'', CNum 1)]"

definition snr_instrument :: instrument where
  "snr_instrument =
     \<lparr>wl_init = [500, 510, 520], fwhm_init = [10, 10, 10], n_chan = 3,
      bounds = [], scale = [], statevec = [], init_val = [], n_state = 0,
      model_type = Some SNR, snr = Some 100, noise_file = None, noise = None,
      ncols = None, covs = None, integrations = CNum 1, bval = [0, 0, 0, 0, 0],
      calibration_fixed = True, prior_sigma = None\<rparr>"

definition pushbroom_config :: "(string \<times> cval) list" where
  "pushbroom_config =
     [(''wavelength_file'', CStr ''wavelengths.txt''),
      (''noise_file'', CStr ''noise.mat''),
      (''integrations'', CNum 4)]"

definition pushbroom_instrument :: instrument where
  "pushbroom_instrument =
     \<lparr>wl_init = [500, 510, 520], fwhm_init = [10, 10, 10], n_chan = 3,
      bounds = [], scale = [], statevec = [], init_val = [], n_state = 0,
      model_type = Some Pushbroom, snr = None, noise_file = Some (CStr ''noise.mat''),
      noise = None, ncols = Some 2,
      covs = Some [[[1, 0, 0], [0, 1, 0], [0, 0, 1]], [[3, 2, 0], [2, 3, 0], [0, 0, 5]]],
      integrations = CNum 4, bval = [0, 0, 0, 0, 0],
      calibration_fixed = True, prior_sigma = None\<rparr>"

text \<open>The state of a call with the number of integrations replaced.\<close>

definition with_integrations :: "sy_state \<Rightarrow> real \<Rightarrow> sy_state" where
  "with_integrations st k = st\<lparr>self := (self st)\<lparr>integrations := CNum k\<rparr>\<rparr>"

definition parametric_config :: "(string \<times> cval) list" where
  "parametric_config =
     [(''wavelength_file'', CStr ''wavelengths.txt''),
      (''noise_file'', CStr ''noise.txt''),
      (''integrations'', CNum 1)]"

definition parametric_instrument :: instrument where
  "parametric_instrument =
     \<lparr>wl_init = [500, 510, 520], fwhm_init = [10, 10, 10], n_chan = 3,
      bounds = [], scale = [], statevec = [], init_val = [], n_state = 0,
      model_type = Some Parametric, snr = None, noise_file = Some (CStr ''noise.txt''),
      noise = Some [(1, 2, 3), (1, 2, 3), (1, 2, 3)], ncols = None, covs = None,
      integrations = CNum 1, bval = [0, 0, 0, 0, 0],
      calibration_fixed = True, prior_sigma = None\<rparr>"

definition example_env2 :: env where
  "example_env2 = example_env\<lparr>srf := (\<lambda>xs mu sigma. Inr (map (\<lambda>x. 1 / 7) xs))\<rparr>"

definition bias_config :: "(string \<times> cval) list" where
  "bias_config =
     [(''wavelength_file'', CStr ''wavelengths.txt''),
      (''SNR'', CNum 100),
      (''integrations'', CNum 1),
      (''stray_srf_uncertainty'', CNum 1),
      (''unknowns'', CDict [(''wavelength_calibration_uncertainty'', CNum (1 / 10)),
                            (''stray_srf_uncertainty'', CNum (1 / 5))])]"

definition bias_instrument :: instrument where
  "bias_instrument = snr_instrument\<lparr>bval := [1 / 5, 1 / 5, 1 / 5, 1 / 10, 1 / 5]\<rparr>"

text \<open>
  A configuration that retrieves the wavelength shift, one whose only unknown is the
  stray-light uncertainty, and a container whose band count does not match three
  channels.
\<close>

definition statevec_config :: "(string \<times> cval) list" where
  "statevec_config =
     [(''wavelength_file'', CStr ''wavelengths.txt''),
      (''statevector'',
         CDict [(''WL_SHIFT'',
                  CDict [(''init'', CNum 0),
                         (''bounds'', CList [CNum (- 1), CNum 1]),
                         (''scale'', CNum 1)])]),
      (''SNR'', CNum 100),
      (''integrations'', CNum 1)]"

definition statevec_instrument :: instrument where
  "statevec_instrument =
     snr_instrument\<lparr>bounds := [CList [CNum (- 1), CNum 1]], scale := [CNum 1],
                     statevec := [''WL_SHIFT''], init_val := [CNum 0], n_state := 1,
                     calibration_fixed := False\<rparr>"

definition stray_config :: "(string \<times> cval) list" where
  "stray_config =
     [(''wavelength_file'', CStr ''wavelengths.txt''),
      (''SNR'', CNum 100),
      (''integrations'', CNum 1),
      (''unknowns'', CDict [(''stray_srf_uncertainty'', CNum (1 / 5))])]"

definition mismatch_env :: env where
  "mismatch_env =
     example_env\<lparr>loadmat := (\<lambda>f. Inr \<lparr>mat_columns = 2, mat_bands = 8,
                                        mat_covariances = [1, 0, 0, 1, 3, 2, 2, 3]\<rparr>)\<rparr>"

section \<open>Properties\<close>

subsection \<open>Auxiliary facts\<close>

lemma sqrt_check: "0 \<le> b \<Longrightarrow> (real n = sqrt (real_of_int b)) = (b = int n * int n)"
proof
  assume "0 \<le> b" "real n = sqrt (real_of_int b)"
  then have "real n * real n = real_of_int b" by simp
  then have "real_of_int (int n * int n) = real_of_int b" by simp
  then show "b = int n * int n" by (simp only: of_int_eq_iff)
next
  assume "b = int n * int n"
  then show "real n = sqrt (real_of_int b)" by (simp add: real_sqrt_mult)
qed

lemma Instrument_snr_config: "Instrument example_env snr_config = Inr snr_instrument"
  by (simp add: Instrument_def example_env_def snr_config_def snr_instrument_def ebind_def
      getitem_def has_key_def init_statevector_def init_noise_def py_float_def np_store_def init_bval_def
      numeral_eq_Suc)

lemma Instrument_pushbroom_config:
  "Instrument example_env pushbroom_config = Inr pushbroom_instrument"
  by (simp add: Instrument_def example_env_def pushbroom_config_def ebind_def
      getitem_def has_key_def init_statevector_def init_noise_def py_float_def np_store_def init_bval_def
      numeral_eq_Suc endswith_def init_pushbroom_def sqrt_check reshape3_def reshape2_def
      pushbroom_instrument_def)

lemma pow2_diagflat: "pow2 (diagflat v) = diagflat (map (\<lambda>x. x\<^sup>2) v)"
  by (simp add: pow2_def diagflat_def)

lemma clamp_floor_max: "clamp_floor ms = map (\<lambda>m. max m meas_floor) ms"
  by (simp add: clamp_floor_def max_def not_less[symmetric] cong: map_cong)

lemma nd_map_empty: "flat a = [] \<Longrightarrow> nd_map f a = a"
  by (cases a) (auto intro!: map_idI)

lemma div_sqrt_pos: "0 < k \<Longrightarrow> div_sqrt a k = Inr (nd_map (\<lambda>x. x / sqrt k) a)"
  by (simp add: div_sqrt_def nd_map_empty)

lemma squeeze_square:
  assumes "length m = n" and "list_all (\<lambda>r. length r = n) m"
  shows "squeeze m = (if n = 1 then Arr0 (m ! 0 ! 0) else Arr2 m)"
proof (cases m)
  case Nil
  with assms show ?thesis by (simp add: squeeze_def)
next
  case (Cons r rs)
  with assms have "r \<noteq> [] \<or> n \<noteq> 1" by auto
  with Cons assms show ?thesis
    by (auto simp: squeeze_def hd_conv_nth list_all_iff)
qed

lemma mean_axis0_nonempty: "cs \<noteq> [] \<Longrightarrow> mean_axis0 n cs = Inr (column_mean n cs)"
  by (simp add: mean_axis0_def column_mean_def)

lemma squeeze_column_mean:
  "squeeze (column_mean n cs)
     = (if n = 1 then Arr0 (column_mean n cs ! 0 ! 0) else Arr2 (column_mean n cs))"
  by (rule squeeze_square) (simp_all add: column_mean_def list_all_iff)

lemma Sy_pushbroom_unfold:
  "model_type (self st) = Some Pushbroom \<Longrightarrow> Sy st g = Sy_pushbroom st g"
  by (simp add: Sy_def)

subsection \<open>The noise models\<close>

text \<open>
  C1. With the SNR noise model, \<open>Sy\<close> raises every entry of the measurement below
  \<open>1e-5\<close> to \<open>1e-5\<close>, divides by \<open>snr\<close> and returns the diagonal matrix of the squares,
  for every measurement vector (the division \<open>1.0 / snr\<close> needs \<open>snr \<noteq> 0\<close>). The
  instance of the example is the one of the specification: three channels,
  \<open>snr = 100\<close> and the measurement \<open>[0.2, 0.3, 0.4]\<close> give
  \<open>diag([4e-6, 9e-6, 1.6e-5])\<close>.
\<close>

theorem Sy_SNR_diag:
  assumes "model_type (self st) = Some SNR" and "snr (self st) = Some r" and "r \<noteq> 0"
  shows "fst (Sy st g) = Inr (Arr2 (diagflat (map (\<lambda>m. (max m meas_floor / r)\<^sup>2) (meas st))))"
  using assms
  by (simp add: Sy_def Sy_SNR_def Let_def ebind_def attr_def pow2_diagflat clamp_floor_max comp_def)

theorem Sy_SNR_diag_witness:
  "Instrument example_env snr_config = Inr snr_instrument \<and>
   fst (Sy \<lparr>self = snr_instrument, meas = [2 / 10, 3 / 10, 4 / 10]\<rparr> \<lparr>pushbroom_column = None\<rparr>)
     = Inr (Arr2 [[4 / 10 ^ 6, 0, 0], [0, 9 / 10 ^ 6, 0], [0, 0, 16 / 10 ^ 6]])"
  using Sy_SNR_diag [of "\<lparr>self = snr_instrument, meas = [2 / 10, 3 / 10, 4 / 10]\<rparr>" 100
      "\<lparr>pushbroom_column = None\<rparr>"]
  by (simp add: Instrument_snr_config snr_instrument_def meas_floor_def diagflat_def
      numeral_eq_Suc power2_eq_square)

text \<open>
  C10. With the SNR noise model, the call of \<open>Sy\<close> writes to the caller's array: after
  it, every entry that was below \<open>1e-5\<close> is \<open>1e-5\<close>, every other entry is as before,
  and the instance is unchanged. This holds whether the call returns or raises.
\<close>

theorem Sy_SNR_mutates_meas:
  assumes "model_type (self st) = Some SNR"
  shows "self (snd (Sy st g)) = self st \<and>
         length (meas (snd (Sy st g))) = length (meas st) \<and>
         (\<forall>i<length (meas st).
            meas (snd (Sy st g)) ! i
              = (if meas st ! i < meas_floor then meas_floor else meas st ! i))"
  using assms by (simp add: Sy_def Sy_SNR_def Let_def clamp_floor_def)

theorem Sy_SNR_mutates_meas_witness:
  "snd (Sy \<lparr>self = snr_instrument, meas = [2 / 10, - 1, 0]\<rparr> \<lparr>pushbroom_column = None\<rparr>)
     = \<lparr>self = snr_instrument, meas = [2 / 10, 1 / 100000, 1 / 100000]\<rparr>"
  using Sy_SNR_mutates_meas [of "\<lparr>self = snr_instrument, meas = [2 / 10, - 1, 0]\<rparr>"
      "\<lparr>pushbroom_column = None\<rparr>"]
  by (simp add: snr_instrument_def Sy_def Sy_SNR_def Let_def clamp_floor_def meas_floor_def)

text \<open>
  C4. With the pushbroom noise model and a positive number of integrations, \<open>Sy\<close>
  returns the mean of the covariances over the column axis when the geometry names no
  column, and the covariance of the column when it names one, both divided by
  \<open>sqrt(integrations)\<close>; the measurement plays no part and is not written to. With a
  single channel \<open>s.squeeze\<close> turns the \<open>1 \<times> 1\<close> mean into a scalar.
\<close>

theorem Sy_pushbroom_mean_or_slice:
  assumes "model_type (self st) = Some Pushbroom" and "covs (self st) = Some cs"
    and "integrations (self st) = CNum k" and "0 < k"
  shows "(pushbroom_column g = None \<and> cs \<noteq> [] \<longrightarrow>
            fst (Sy st g) = Inr (if n_chan (self st) = 1
                                 then Arr0 (scaled k (column_mean 1 cs) ! 0 ! 0)
                                 else Arr2 (scaled k (column_mean (n_chan (self st)) cs)))) \<and>
         (\<forall>c. pushbroom_column g = Some c \<and> 0 \<le> c \<and> c < int (length cs) \<longrightarrow>
            fst (Sy st g) = Inr (Arr2 (scaled k (cs ! nat c)))) \<and>
         fst (Sy (st\<lparr>meas := ms\<rparr>) g) = fst (Sy st g) \<and>
         snd (Sy st g) = st"
proof (intro conjI impI allI)
  assume "pushbroom_column g = None \<and> cs \<noteq> []"
  with assms show "fst (Sy st g) = Inr (if n_chan (self st) = 1
                                 then Arr0 (scaled k (column_mean 1 cs) ! 0 ! 0)
                                 else Arr2 (scaled k (column_mean (n_chan (self st)) cs)))"
    by (simp add: Sy_pushbroom_unfold Sy_pushbroom_def ebind_def attr_def as_number_def
        div_sqrt_pos mean_axis0_nonempty squeeze_column_mean scaled_def)
       (simp add: column_mean_def)
next
  fix c assume "pushbroom_column g = Some c \<and> 0 \<le> c \<and> c < int (length cs)"
  with assms show "fst (Sy st g) = Inr (Arr2 (scaled k (cs ! nat c)))"
    by (simp add: Sy_pushbroom_unfold Sy_pushbroom_def ebind_def attr_def as_number_def
        div_sqrt_pos index_axis0_def scaled_def)
next
  from assms show "fst (Sy (st\<lparr>meas := ms\<rparr>) g) = fst (Sy st g)"
    by (cases "pushbroom_column g") (simp_all add: Sy_pushbroom_unfold Sy_pushbroom_def)
next
  from assms show "snd (Sy st g) = st"
    by (simp add: Sy_pushbroom_unfold Sy_pushbroom_def)
qed

theorem Sy_pushbroom_mean_or_slice_witness:
  "Instrument example_env pushbroom_config = Inr pushbroom_instrument \<and>
   fst (Sy \<lparr>self = pushbroom_instrument, meas = [1, 2, 3]\<rparr> \<lparr>pushbroom_column = None\<rparr>)
     = Inr (Arr2 [[1, 1 / 2, 0], [1 / 2, 1, 0], [0, 0, 3 / 2]]) \<and>
   fst (Sy \<lparr>self = pushbroom_instrument, meas = [1, 2, 3]\<rparr> \<lparr>pushbroom_column = Some 1\<rparr>)
     = Inr (Arr2 [[3 / 2, 1, 0], [1, 3 / 2, 0], [0, 0, 5 / 2]]) \<and>
   fst (Sy \<lparr>self = pushbroom_instrument, meas = [7, 7, 7]\<rparr> \<lparr>pushbroom_column = Some 1\<rparr>)
     = fst (Sy \<lparr>self = pushbroom_instrument, meas = [1, 2, 3]\<rparr> \<lparr>pushbroom_column = Some 1\<rparr>)"
proof -
  have s4: "sqrt 4 = 2"
    using real_sqrt_abs [of 2] by simp
  let ?cs = "[[[1, 0, 0], [0, 1, 0], [0, 0, 1]], [[3, 2, 0], [2, 3, 0], [0, 0, 5::real]]]"
  note a = Sy_pushbroom_mean_or_slice [of "\<lparr>self = pushbroom_instrument, meas = [1, 2, 3]\<rparr>" ?cs 4
        "\<lparr>pushbroom_column = None\<rparr>" "[7, 7, 7]"]
  note b = Sy_pushbroom_mean_or_slice [of "\<lparr>self = pushbroom_instrument, meas = [1, 2, 3]\<rparr>" ?cs 4
        "\<lparr>pushbroom_column = Some 1\<rparr>" "[7, 7, 7]"]
  show ?thesis
    using a b
    by (simp add: Instrument_pushbroom_config pushbroom_instrument_def scaled_def
        column_mean_def s4 numeral_eq_Suc)
qed

lemma Instrument_parametric_config:
  "Instrument example_env parametric_config = Inr parametric_instrument"
  by (simp add: Instrument_def example_env_def parametric_config_def ebind_def
      getitem_def has_key_def init_statevector_def init_noise_def py_float_def np_store_def init_bval_def
      numeral_eq_Suc endswith_def init_parametric_def column_def
      parametric_instrument_def)

lemma Sy_parametric_unfold:
  "model_type (self st) = Some Parametric \<Longrightarrow> Sy st g = Sy_parametric st"
  by (simp add: Sy_def)

lemma map_diagflat: "f 0 = 0 \<Longrightarrow> map (map f) (diagflat v) = diagflat (map f v)"
  by (simp add: diagflat_def)

text \<open>
  The entry of \<open>abs(a * s.sqrt(x) + c)\<close> in real terms: the absolute value where
  \<open>x\<close> is not negative, and the modulus of \<open>c + i a sqrt(-x)\<close> where it is.
\<close>

lemma cmod_scimath_entry:
  "cmod (complex_of_real a * csqrt (complex_of_real x) + complex_of_real c)
     = (if 0 \<le> x then \<bar>a * sqrt x + c\<bar> else sqrt (c\<^sup>2 + (a * sqrt (- x))\<^sup>2))"
proof (cases "0 \<le> x")
  case True
  then have "complex_of_real a * csqrt (complex_of_real x) + complex_of_real c
      = complex_of_real (a * sqrt x + c)"
    by (simp add: csqrt_of_real)
  then have "cmod (complex_of_real a * csqrt (complex_of_real x) + complex_of_real c)
      = cmod (complex_of_real (a * sqrt x + c))"
    by (rule arg_cong)
  with True show ?thesis by (simp only: norm_of_real if_True)
next
  case False
  then have r: "csqrt (complex_of_real x) = \<i> * complex_of_real (sqrt (- x))"
    by simp
  have "complex_of_real a * (\<i> * complex_of_real (sqrt (- x))) + complex_of_real c
      = Complex c (a * sqrt (- x))"
    by (simp add: complex_eq_iff)
  with r False show ?thesis by (simp add: cmod_def)
qed

text \<open>The entries of \<open>nedl\<close> before the division, for a measurement of the table's length.\<close>

lemma parametric_nedl0_entries:
  assumes "nz \<noteq> []" and "length ms = length nz"
  shows "parametric_nedl0 nz ms
           = Inr (map2 (\<lambda>(a, b, c) m. if 0 \<le> b + m then \<bar>a * sqrt (b + m) + c\<bar>
                                        else sqrt (c\<^sup>2 + (a * sqrt (- (b + m)))\<^sup>2)) nz ms)"
proof -
  from assms(2) have "map cmod
       (map2 (\<lambda>z c. z + complex_of_real c)
          (map2 (\<lambda>a z. complex_of_real a * z) (map (\<lambda>(a, b, c). a) nz)
             (map (\<lambda>x. csqrt (complex_of_real x)) (map2 (+) (map (\<lambda>(a, b, c). b) nz) ms)))
          (map (\<lambda>(a, b, c). c) nz))
     = map2 (\<lambda>(a, b, c) m. if 0 \<le> b + m then \<bar>a * sqrt (b + m) + c\<bar>
                             else sqrt (c\<^sup>2 + (a * sqrt (- (b + m)))\<^sup>2)) nz ms"
  proof (induction ms nz rule: list_induct2)
    case Nil
    then show ?case by simp
  next
    case (Cons m ms n nz)
    obtain a b c where n: "n = (a, b, c)" by (cases n)
    from Cons.IH n show ?case by (simp only: list.map zip_Cons_Cons prod.case cmod_scimath_entry)
  qed
  with assms show ?thesis
    by (simp add: parametric_nedl0_def bc2_def ebind_def scimath_sqrt_def)
qed

lemma parametric_nedl0_returns:
  assumes "nz \<noteq> []" and "length ms = length nz"
  shows "\<exists>v. parametric_nedl0 nz ms = Inr v \<and> length v = length nz"
  using assms by (simp add: parametric_nedl0_def bc2_def ebind_def scimath_sqrt_def)

lemma parametric_nedl_scaled:
  assumes "integrations slf = CNum k" and "0 < k"
  shows "parametric_nedl (slf\<lparr>integrations := CNum (4 * k)\<rparr>) ms
           = map_sum id (map (\<lambda>v. v / 2)) (parametric_nedl slf ms)"
proof -
  have sq: "sqrt (4 * k) = 2 * sqrt k"
    using real_sqrt_abs [of 2] by (simp add: real_sqrt_mult)
  show ?thesis
  proof (cases "noise slf")
    case None
    then show ?thesis by (simp add: parametric_nedl_def ebind_def attr_def)
  next
    case (Some nz)
    show ?thesis
    proof (cases "parametric_nedl0 nz ms")
      case (Inl e)
      with Some show ?thesis by (simp add: parametric_nedl_def ebind_def attr_def)
    next
      case (Inr nedl0)
      with Some assms show ?thesis
        by (simp add: parametric_nedl_def ebind_def attr_def as_number_def div_sqrt_pos sq)
    qed
  qed
qed

text \<open>
  C6. With the parametric noise model and a positive number of integrations, for every
  measurement vector and every coefficient table, four times as many integrations
  halve every entry of \<open>nedl\<close> and so divide every entry of \<open>Sy\<close> by four (a call
  that raises, raises with both numbers of integrations). The program returns for
  every measurement vector with one entry for each row of a coefficient table that is
  not empty, also where \<open>noise[:, 1] + meas\<close> is negative.
\<close>

theorem Sy_parametric_integrations:
  assumes "model_type (self st) = Some Parametric" and "integrations (self st) = CNum k"
    and "0 < k"
  shows "parametric_nedl (self (with_integrations st (4 * k))) (meas st)
           = map_sum id (map (\<lambda>v. v / 2)) (parametric_nedl (self st) (meas st)) \<and>
         fst (Sy (with_integrations st (4 * k)) g)
           = map_sum id (nd_map (\<lambda>v. v / 4)) (fst (Sy st g)) \<and>
         (\<forall>nz. noise (self st) = Some nz \<and> nz \<noteq> [] \<and> length (meas st) = length nz
            \<longrightarrow> (\<exists>nedl. length nedl = length nz \<and>
                   parametric_nedl (self st) (meas st) = Inr nedl \<and>
                   fst (Sy st g) = Inr (Arr2 (diagflat (map (\<lambda>v. v\<^sup>2) nedl))) \<and>
                   fst (Sy (with_integrations st (4 * k)) g)
                     = Inr (Arr2 (diagflat (map (\<lambda>v. v\<^sup>2 / 4) nedl)))))"
proof (intro conjI allI impI)
  from assms(2,3)
  show n4: "parametric_nedl (self (with_integrations st (4 * k))) (meas st)
           = map_sum id (map (\<lambda>v. v / 2)) (parametric_nedl (self st) (meas st))"
    by (simp add: with_integrations_def parametric_nedl_scaled)
  show s4: "fst (Sy (with_integrations st (4 * k)) g)
           = map_sum id (nd_map (\<lambda>v. v / 4)) (fst (Sy st g))"
  proof (cases "parametric_nedl (self st) (meas st)")
    case (Inl e)
    with assms(1) n4 show ?thesis
      by (simp add: Sy_parametric_unfold Sy_parametric_def ebind_def with_integrations_def)
  next
    case (Inr nedl)
    with assms(1) n4 show ?thesis
      by (simp add: Sy_parametric_unfold Sy_parametric_def ebind_def with_integrations_def
          pow2_diagflat map_diagflat comp_def power_divide)
  qed
  fix nz
  assume h: "noise (self st) = Some nz \<and> nz \<noteq> [] \<and> length (meas st) = length nz"
  with parametric_nedl0_returns [of nz "meas st"] obtain v where
    v: "parametric_nedl0 nz (meas st) = Inr v" "length v = length nz" by auto
  with h assms(2,3) have n: "parametric_nedl (self st) (meas st) = Inr (map (\<lambda>x. x / sqrt k) v)"
    by (simp add: parametric_nedl_def ebind_def attr_def as_number_def div_sqrt_pos)
  let ?nedl = "map (\<lambda>x. x / sqrt k) v"
  from assms(1) n have a: "fst (Sy st g) = Inr (Arr2 (diagflat (map (\<lambda>v. v\<^sup>2) ?nedl)))"
    by (simp add: Sy_parametric_unfold Sy_parametric_def ebind_def pow2_diagflat)
  from s4 a have b: "fst (Sy (with_integrations st (4 * k)) g)
                     = Inr (Arr2 (diagflat (map (\<lambda>v. v\<^sup>2 / 4) ?nedl)))"
    by (simp add: map_diagflat comp_def)
  from v n a b
  show "\<exists>nedl. length nedl = length nz \<and>
                   parametric_nedl (self st) (meas st) = Inr nedl \<and>
                   fst (Sy st g) = Inr (Arr2 (diagflat (map (\<lambda>v. v\<^sup>2) nedl))) \<and>
                   fst (Sy (with_integrations st (4 * k)) g)
                     = Inr (Arr2 (diagflat (map (\<lambda>v. v\<^sup>2 / 4) nedl)))"
    by (intro exI [of _ ?nedl]) simp
qed

theorem Sy_parametric_integrations_witness:
  "Instrument example_env parametric_config = Inr parametric_instrument \<and>
   parametric_nedl parametric_instrument [- 18, 7, 2] = Inr [5, 6, 5] \<and>
   parametric_nedl (parametric_instrument\<lparr>integrations := CNum 4\<rparr>) [- 18, 7, 2]
     = Inr [5 / 2, 3, 5 / 2] \<and>
   fst (Sy \<lparr>self = parametric_instrument, meas = [- 18, 7, 2]\<rparr> \<lparr>pushbroom_column = None\<rparr>)
     = Inr (Arr2 [[25, 0, 0], [0, 36, 0], [0, 0, 25]]) \<and>
   fst (Sy \<lparr>self = parametric_instrument\<lparr>integrations := CNum 4\<rparr>, meas = [- 18, 7, 2]\<rparr>
          \<lparr>pushbroom_column = None\<rparr>)
     = Inr (Arr2 [[25 / 4, 0, 0], [0, 9, 0], [0, 0, 25 / 4]])"
proof -
  have s4: "sqrt 4 = 2"
    using real_sqrt_abs [of 2] by simp
  have s9: "sqrt 9 = 3"
    using real_sqrt_abs [of 3] by simp
  have s16: "sqrt 16 = 4"
    using real_sqrt_abs [of 4] by simp
  have s25: "sqrt 25 = 5"
    using real_sqrt_abs [of 5] by simp
  have n0: "parametric_nedl0 [(1, 2, 3), (1, 2, 3), (1, 2, 3)] [- 18, 7, 2] = Inr [5, 6, 5]"
    by (simp add: parametric_nedl0_entries s4 s9 s16 s25)
  have n: "parametric_nedl parametric_instrument [- 18, 7, 2] = Inr [5, 6, 5]"
    by (simp add: parametric_nedl_def parametric_instrument_def ebind_def attr_def n0
        as_number_def div_sqrt_def)
  show ?thesis
    using n Sy_parametric_integrations [of "\<lparr>self = parametric_instrument, meas = [- 18, 7, 2]\<rparr>" 1
        "\<lparr>pushbroom_column = None\<rparr>"]
    by (simp add: Instrument_parametric_config with_integrations_def diagflat_def numeral_eq_Suc)
       (simp add: parametric_instrument_def)
qed

subsection \<open>Sampling\<close>

lemma list_all_diff_self: "list_all (\<lambda>v. v < wl_tol) (map2 (-) w w)"
  by (auto simp: list_all_iff wl_tol_def zip_same)

text \<open>
  C7. When \<open>calibration_fixed\<close> holds, \<open>sample\<close> returns \<open>rdn_hi\<close> as it is for
  \<open>wl_hi = wl_init\<close>, and more generally whenever every element of
  \<open>wl_init - wl_hi\<close> is below \<open>wl_tol\<close> (for grids of equal length, and for any
  difference that numpy can form), for every state and every radiance.
\<close>

theorem sample_identity:
  assumes "calibration_fixed slf"
  shows "sample ev slf x (wl_init slf) rdn_hi = Inr rdn_hi \<and>
         (length wl_hi = length (wl_init slf) \<and>
          (\<forall>i<length wl_hi. wl_init slf ! i - wl_hi ! i < wl_tol)
            \<longrightarrow> sample ev slf x wl_hi rdn_hi = Inr rdn_hi) \<and>
         (\<forall>d. bc2 (-) (wl_init slf) wl_hi = Inr d \<and> list_all (\<lambda>v. v < wl_tol) d
            \<longrightarrow> sample ev slf x wl_hi rdn_hi = Inr rdn_hi)"
proof (intro conjI impI allI)
  from assms show "sample ev slf x (wl_init slf) rdn_hi = Inr rdn_hi"
    by (simp add: sample_def fast_path_def ebind_def bc2_def list_all_diff_self)
next
  assume h: "length wl_hi = length (wl_init slf) \<and>
          (\<forall>i<length wl_hi. wl_init slf ! i - wl_hi ! i < wl_tol)"
  then have "list_all (\<lambda>v. v < wl_tol) (map2 (-) (wl_init slf) wl_hi)"
    by (auto simp: list_all_iff in_set_zip)
  with assms h show "sample ev slf x wl_hi rdn_hi = Inr rdn_hi"
    by (simp add: sample_def fast_path_def ebind_def bc2_def)
next
  fix d assume "bc2 (-) (wl_init slf) wl_hi = Inr d \<and> list_all (\<lambda>v. v < wl_tol) d"
  with assms show "sample ev slf x wl_hi rdn_hi = Inr rdn_hi"
    by (simp add: sample_def fast_path_def ebind_def)
qed

theorem sample_identity_witness:
  "calibration_fixed snr_instrument \<and>
   sample example_env snr_instrument [] [500, 510, 520] (Arr1 [1, 2, 3]) = Inr (Arr1 [1, 2, 3]) \<and>
   sample example_env snr_instrument [] [500 + 1 / 200, 511, 525] (Arr2 [[1, 2, 3], [4, 5, 6]])
     = Inr (Arr2 [[1, 2, 3], [4, 5, 6]]) \<and>
   sample example_env snr_instrument [] [600] (Arr1 [1, 2, 3]) = Inr (Arr1 [1, 2, 3])"
  using sample_identity [of snr_instrument example_env "[]" "Arr1 [1, 2, 3]" "[500, 510, 520]"]
    sample_identity [of snr_instrument example_env "[]" "Arr2 [[1, 2, 3], [4, 5, 6]]"
      "[500 + 1 / 200, 511, 525]"]
    sample_identity [of snr_instrument example_env "[]" "Arr1 [1, 2, 3]" "[600]"]
  by (simp add: snr_instrument_def wl_tol_def bc2_def nth_Cons' less_Suc_eq_0_disj)


subsection \<open>The Jacobian of the bias variables\<close>

lemma column_of_length: "column_of n v = Inr col \<Longrightarrow> length col = n"
  by (auto simp: column_of_def split: ndarray.splits if_splits)

lemma set_column_rows:
  assumes "set_column m j v = Inr m'"
  shows "length m' = length m \<and> (\<forall>i<length m. \<exists>c. m' ! i = (m ! i)[j := c])"
proof -
  from assms obtain col where c: "column_of (length m) v = Inr col"
    and m': "m' = map (\<lambda>(row, c). row[j := c]) (zip m col)"
    by (auto simp: set_column_def ebind_def split: sum.splits)
  from c have "length col = length m" by (rule column_of_length)
  with m' show ?thesis by auto
qed

lemma diagflat_rows: "length (diagflat v) = length v \<and> (\<forall>i<length v. length (diagflat v ! i) = length v)"
  by (simp add: diagflat_def)

lemma radiometric_block_rows:
  assumes "radiometric_block n ms = Inr J"
  shows "length (flat ms) = n \<and> length J = n \<and> (\<forall>i<n. J ! i = diagflat (flat ms) ! i @ [0, 0])"
  using assms by (auto simp: radiometric_block_def diagflat_rows split: if_splits)

lemma index_last_two:
  "length b = n + 2 \<Longrightarrow> index_axis0 b (- 2) = Inr (b ! n) \<and> index_axis0 b (- 1) = Inr (b ! (n + 1))"
  by (simp add: index_axis0_def nat_add_distrib)

text \<open>The rows after the optional writes to the two last columns.\<close>

lemma set_column_spectral:
  assumes "set_column J n v = Inr J'" and "length J = n"
    and "\<forall>i<n. \<exists>a b. J ! i = D ! i @ [a, b]" and "\<forall>i<n. length (D ! i) = n"
  shows "length J' = n \<and> (\<forall>i<n. \<exists>a b. J' ! i = D ! i @ [a, b]) \<and>
         (\<forall>i<n. J' ! i ! (n + 1) = J ! i ! (n + 1))"
proof -
  from set_column_rows [OF assms(1)] assms(2)
  have l: "length J' = n" and r: "\<forall>i<n. \<exists>c. J' ! i = (J ! i)[n := c]" by auto
  { fix i assume i: "i < n"
    with assms(3) obtain a b where ab: "J ! i = D ! i @ [a, b]" by blast
    from r i obtain c where c: "J' ! i = (J ! i)[n := c]" by blast
    from assms(4) i have ld: "length (D ! i) = n" by simp
    from ab c ld have "J' ! i = D ! i @ [c, b]" by (simp add: list_update_append)
    with ab ld have "(\<exists>a b. J' ! i = D ! i @ [a, b]) \<and> J' ! i ! (n + 1) = J ! i ! (n + 1)"
      by (simp add: nth_append) }
  with l show ?thesis by blast
qed

lemma set_column_stray:
  assumes "set_column J (n + 1) v = Inr J'" and "length J = n"
    and "\<forall>i<n. \<exists>a b. J ! i = D ! i @ [a, b]" and "\<forall>i<n. length (D ! i) = n"
  shows "length J' = n \<and> (\<forall>i<n. \<exists>a b. J' ! i = D ! i @ [a, b]) \<and>
         (\<forall>i<n. J' ! i ! n = J ! i ! n)"
proof -
  from set_column_rows [OF assms(1)] assms(2)
  have l: "length J' = n" and r: "\<forall>i<n. \<exists>c. J' ! i = (J ! i)[n + 1 := c]" by auto
  { fix i assume i: "i < n"
    with assms(3) obtain a b where ab: "J ! i = D ! i @ [a, b]" by blast
    from r i obtain c where c: "J' ! i = (J ! i)[n + 1 := c]" by blast
    from assms(4) i have ld: "length (D ! i) = n" by simp
    from ab c ld have "J' ! i = D ! i @ [a, c]" by (simp add: list_update_append)
    with ab ld have "(\<exists>a b. J' ! i = D ! i @ [a, b]) \<and> J' ! i ! n = J ! i ! n"
      by (simp add: nth_append) }
  with l show ?thesis by blast
qed

lemma sqrt_25th: "sqrt (1 / 25) = 1 / 5"
  using real_sqrt_abs [of "1 / 5"] by (simp add: power2_eq_square)

lemma Instrument_bias_config: "Instrument example_env bias_config = Inr bias_instrument"
  by (simp add: Instrument_def example_env_def bias_config_def snr_instrument_def ebind_def
      getitem_def has_key_def init_statevector_def init_noise_def py_float_def np_store_def init_bval_def
      numeral_eq_Suc bias_instrument_def special_unknowns_def unknown_value_def add_squares_def
      power2_eq_square sqrt_25th)

lemma stray_kernel_sum: "sum_list (map (\<lambda>x. 1 / 7) arange_10) = (3::real)"
  by (simp add: arange_10_def sum_list_triv o_def)

text \<open>
  C5. Whenever \<open>dmeas_dinstrumentb\<close> returns, for an instance whose \<open>bval\<close> has
  \<open>n_chan + 2\<close> entries: with \<open>meas = sample(state, wl_hi, rdn_hi)\<close>, the first
  \<open>n_chan\<close> columns of the result are \<open>diag(meas)\<close>; column \<open>n_chan\<close> is zero
  unless \<open>bval[n_chan]\<close> exceeds \<open>1e-6\<close>, and column \<open>n_chan + 1\<close> is zero unless
  \<open>bval[n_chan + 1]\<close> exceeds \<open>1e-6\<close>.
\<close>

theorem dmeas_dinstrumentb_columns:
  assumes ret: "dmeas_dinstrumentb ev slf x wl_hi rdn_hi = Inr K"
    and bv: "length (bval slf) = n_chan slf + 2"
  shows "\<exists>ms. sample ev slf x wl_hi rdn_hi = Inr ms \<and>
           length K = n_chan slf \<and>
           map (take (n_chan slf)) K = diagflat (flat ms) \<and>
           (\<not> bval slf ! n_chan slf > bias_threshold
              \<longrightarrow> (\<forall>i<n_chan slf. K ! i ! n_chan slf = 0)) \<and>
           (\<not> bval slf ! (n_chan slf + 1) > bias_threshold
              \<longrightarrow> (\<forall>i<n_chan slf. K ! i ! (n_chan slf + 1) = 0))"
proof -
  let ?n = "n_chan slf"
  note ix = index_last_two [OF bv]
  from ret obtain ms J0 J1 where ms: "sample ev slf x wl_hi rdn_hi = Inr ms"
    and J0: "radiometric_block ?n ms = Inr J0"
    and J1: "(if bval slf ! ?n > bias_threshold
              then ebind (shifted_radiance rdn_hi) (\<lambda>d.
                   ebind (sample ev slf x wl_hi d) (\<lambda>col. set_column J0 ?n col))
              else Inr J0) = Inr J1"
    and K: "(if bval slf ! (?n + 1) > bias_threshold
             then ebind (stray_column ev ms) (\<lambda>col. set_column J1 (?n + 1) col)
             else Inr J1) = Inr K"
    by (auto simp: dmeas_dinstrumentb_def ebind_def ix split: sum.splits)
  let ?D = "diagflat (flat ms)"
  from radiometric_block_rows [OF J0]
  have lm: "length (flat ms) = ?n" and l0: "length J0 = ?n"
    and r0: "\<forall>i<?n. J0 ! i = ?D ! i @ [0, 0]" by auto
  from lm diagflat_rows [of "flat ms"]
  have lD: "length ?D = ?n" and rD: "\<forall>i<?n. length (?D ! i) = ?n" by auto
  from r0 have e0: "\<forall>i<?n. \<exists>a b. J0 ! i = ?D ! i @ [a, b]" by blast
  from r0 rD have z0: "\<forall>i<?n. J0 ! i ! ?n = 0 \<and> J0 ! i ! (?n + 1) = 0"
    by (simp add: nth_append)
  have s1: "length J1 = ?n \<and> (\<forall>i<?n. \<exists>a b. J1 ! i = ?D ! i @ [a, b]) \<and>
            (\<forall>i<?n. J1 ! i ! (?n + 1) = 0) \<and>
            (\<not> bval slf ! ?n > bias_threshold \<longrightarrow> (\<forall>i<?n. J1 ! i ! ?n = 0))"
  proof (cases "bval slf ! ?n > bias_threshold")
    case True
    with J1 obtain col where "set_column J0 ?n col = Inr J1"
      by (auto simp: ebind_def split: sum.splits)
    from set_column_spectral [OF this l0 e0 rD] z0 True show ?thesis by simp
  next
    case False
    with J1 have "J1 = J0" by simp
    with l0 e0 z0 show ?thesis by simp
  qed
  then have l1: "length J1 = ?n" and e1: "\<forall>i<?n. \<exists>a b. J1 ! i = ?D ! i @ [a, b]" by auto
  have s2: "length K = ?n \<and> (\<forall>i<?n. \<exists>a b. K ! i = ?D ! i @ [a, b]) \<and>
            (\<forall>i<?n. K ! i ! ?n = J1 ! i ! ?n) \<and>
            (\<not> bval slf ! (?n + 1) > bias_threshold \<longrightarrow> (\<forall>i<?n. K ! i ! (?n + 1) = 0))"
  proof (cases "bval slf ! (?n + 1) > bias_threshold")
    case True
    with K obtain col where "set_column J1 (?n + 1) col = Inr K"
      by (auto simp: ebind_def split: sum.splits)
    from set_column_stray [OF this l1 e1 rD] True show ?thesis by simp
  next
    case False
    with K have "K = J1" by simp
    with s1 show ?thesis by simp
  qed
  have tk: "map (take ?n) K = ?D"
  proof (rule nth_equalityI)
    from s2 lD show "length (map (take ?n) K) = length ?D" by simp
  next
    fix i assume "i < length (map (take ?n) K)"
    with s2 have i: "i < ?n" by simp
    with s2 obtain a b where "K ! i = ?D ! i @ [a, b]" by blast
    with i rD s2 show "map (take ?n) K ! i = ?D ! i" by simp
  qed
  from ms s1 s2 tk show ?thesis by auto
qed


theorem dmeas_dinstrumentb_columns_witness:
  "Instrument example_env bias_config = Inr bias_instrument \<and>
   dmeas_dinstrumentb example_env snr_instrument [] [500, 510, 520] (Arr1 [1, 2, 4])
     = Inr [[1, 0, 0, 0, 0], [0, 2, 0, 0, 0], [0, 0, 4, 0, 0]] \<and>
   dmeas_dinstrumentb example_env2 bias_instrument [] [500, 510, 520] (Arr1 [1, 2, 4])
     = Inr [[1, 0, 0, 1, 2], [0, 2, 0, 2, 4], [0, 0, 4, 0, 8]]"
proof -
  have a: "dmeas_dinstrumentb example_env snr_instrument [] [500, 510, 520] (Arr1 [1, 2, 4])
     = Inr [[1, 0, 0, 0, 0], [0, 2, 0, 0, 0], [0, 0, 4, 0, 0]]"
    by (simp add: dmeas_dinstrumentb_def sample_def fast_path_def snr_instrument_def ebind_def
        bc2_def wl_tol_def radiometric_block_def diagflat_def index_axis0_def bias_threshold_def
        numeral_eq_Suc)
  have b: "dmeas_dinstrumentb example_env2 bias_instrument [] [500, 510, 520] (Arr1 [1, 2, 4])
     = Inr [[1, 0, 0, 1, 2], [0, 2, 0, 2, 4], [0, 0, 4, 0, 8]]"
    by (simp add: dmeas_dinstrumentb_def sample_def fast_path_def snr_instrument_def ebind_def
        bias_instrument_def example_env2_def example_env_def
        bc2_def wl_tol_def radiometric_block_def diagflat_def index_axis0_def bias_threshold_def
        shifted_radiance_def diff1_def set_column_def column_of_def stray_column_def
        stray_kernel_sum numeral_eq_Suc)
  from a b Instrument_bias_config
    dmeas_dinstrumentb_columns [OF a] dmeas_dinstrumentb_columns [OF b]
  show ?thesis by (simp add: snr_instrument_def bias_instrument_def)
qed

subsection \<open>The constructor\<close>

lemma Instrument_statevec_config:
  "Instrument example_env statevec_config = Inr statevec_instrument"
  by (simp add: Instrument_def example_env_def statevec_config_def snr_instrument_def ebind_def
      getitem_def has_key_def init_statevector_def init_noise_def py_float_def np_store_def init_bval_def
      numeral_eq_Suc statevec_instrument_def subscript_def)

lemma init_parametric_frame:
  "init_parametric ev f s = Inr s' \<Longrightarrow> \<exists>nz. s' = s\<lparr>model_type := Some Parametric, noise := Some nz\<rparr>"
  by (auto simp: init_parametric_def ebind_def split: sum.splits)

lemma init_pushbroom_frame:
  "init_pushbroom ev f s = Inr s' \<Longrightarrow>
     \<exists>nc cs. s' = s\<lparr>model_type := Some Pushbroom, ncols := Some nc, covs := Some cs\<rparr>"
  by (auto simp: init_pushbroom_def ebind_def split: sum.splits if_splits)

lemma init_noise_frame:
  assumes "init_noise ev config s = Inr s'"
  shows "wl_init s' = wl_init s \<and> fwhm_init s' = fwhm_init s \<and> n_chan s' = n_chan s \<and>
         bounds s' = bounds s \<and> scale s' = scale s \<and> statevec s' = statevec s \<and>
         init_val s' = init_val s \<and> n_state s' = n_state s \<and>
         prior_sigma s' = prior_sigma s"
proof (cases "has_key config ''SNR''")
  case True
  with assms show ?thesis
    by (auto simp: init_noise_def ebind_def split: sum.splits)
next
  case False
  with assms obtain nf f where nf: "getitem config ''noise_file'' = Inr nf" "nf = CStr f"
    and r: "(if endswith f ''.txt'' then init_parametric ev f (s\<lparr>noise_file := Some nf\<rparr>)
             else if endswith f ''.mat'' then init_pushbroom ev f (s\<lparr>noise_file := Some nf\<rparr>)
             else Inr (s\<lparr>noise_file := Some nf\<rparr>)) = Inr s'"
    by (auto simp: init_noise_def ebind_def split: sum.splits cval.splits)
  show ?thesis
  proof (cases "endswith f ''.txt''")
    case True
    with r init_parametric_frame show ?thesis by fastforce
  next
    case False
    with r init_pushbroom_frame show ?thesis by (cases "endswith f ''.mat''") fastforce+
  qed
qed

lemma add_squares_length: "add_squares rad u = Inr rad' \<Longrightarrow> length rad' = length rad"
  by (auto simp: add_squares_def split: ndarray.splits if_splits)

lemma unknowns_loop_length:
  "unknowns_loop ev items rad = Inr rad' \<Longrightarrow> length rad' = length rad"
proof (induction ev items rad rule: unknowns_loop.induct)
  case (1 ev rad)
  then show ?case by simp
next
  case (2 ev key val items rad)
  show ?case
  proof (cases "key \<in> set special_unknowns")
    case True
    with 2 show ?thesis by simp
  next
    case False
    with "2.prems" obtain u r where u: "(case val of CStr f \<Rightarrow> unknown_file ev f
                             | _ \<Rightarrow> unknown_value (length rad) val) = Inr u"
      and r: "add_squares rad u = Inr r" and l: "unknowns_loop ev items r = Inr rad'"
      by (auto simp: ebind_def split: sum.splits)
    from "2.IH"(2) [OF False l] add_squares_length [OF r] show ?thesis by simp
  qed
qed

lemma init_bval_length:
  assumes "init_bval ev config n = Inr bv"
  shows "length bv = n + 2"
  using assms
  by (auto simp: init_bval_def ebind_def Let_def
      split: sum.splits cval.splits if_splits dest!: unknowns_loop_length)

lemma Instrument_invariant:
  assumes "Instrument ev config = Inr slf"
  shows "n_chan slf = length (wl_init slf) \<and> n_state slf = length (statevec slf) \<and>
         length (bval slf) = n_chan slf + 2 \<and> prior_sigma slf = None \<and>
         calibration_fixed slf
           = (''FWHM_SCL'' \<notin> set (statevec slf) \<and> ''WL_SHIFT'' \<notin> set (statevec slf))"
proof -
  from assms obtain wl fwhm ks "is" bs cs s1 ig bv where
    n: "init_noise ev config
              \<lparr>wl_init = wl, fwhm_init = fwhm, n_chan = length wl,
               bounds = bs, scale = cs, statevec = ks, init_val = is,
               n_state = length ks,
               model_type = None, snr = None, noise_file = None, noise = None,
               ncols = None, covs = None,
               integrations = CList [], bval = [], calibration_fixed = False,
               prior_sigma = None\<rparr> = Inr s1"
    and b: "init_bval ev config (n_chan s1) = Inr bv"
    and slf: "slf = s1\<lparr>integrations := ig, bval := bv,
               calibration_fixed := (''FWHM_SCL'' \<notin> set (statevec s1)
                                     \<and> ''WL_SHIFT'' \<notin> set (statevec s1))\<rparr>"
    by (auto simp: Instrument_def ebind_def split: sum.splits prod.splits)
  from init_noise_frame [OF n] init_bval_length [OF b] slf show ?thesis by simp
qed

lemma index_bound:
  fixes i j r c :: nat
  assumes "i < r" and "j < c"
  shows "i * c + j < r * c"
proof -
  from assms(2) have "i * c + j < Suc i * c" by simp
  also from assms(1) have "Suc i * c \<le> r * c" by (intro mult_le_mono1) simp
  finally show ?thesis .
qed

lemma reshape2_nth:
  assumes "length ys = r * c" and "i < r" and "j < c"
  shows "length (reshape2 r c ys) = r \<and> length (reshape2 r c ys ! i) = c \<and>
         reshape2 r c ys ! i ! j = ys ! (i * c + j)"
proof -
  from index_bound [OF assms(2,3)] have b: "i * c + j < r * c" .
  from assms(2) have "Suc i * c \<le> r * c" by (intro mult_le_mono1) simp
  then have le: "i * c + c \<le> r * c" by simp
  from assms(2) have le': "i * c \<le> r * c" by (intro mult_le_mono1) simp
  from assms(1,2) le have "length (take c (drop (i * c) ys)) = c" by simp
  moreover from assms(1,3) le' have "take c (drop (i * c) ys) ! j = ys ! (i * c + j)" by simp
  ultimately show ?thesis using assms(2) by (simp add: reshape2_def)
qed

lemma reshape3_nth:
  assumes "length xs = k * r * c"
  shows "\<exists>cs. reshape3 k r c xs = Inr cs \<and> length cs = k \<and>
           (\<forall>a<k. length (cs ! a) = r \<and>
              (\<forall>i<r. length (cs ! a ! i) = c \<and>
                 (\<forall>j<c. cs ! a ! i ! j = xs ! ((a * r + i) * c + j))))"
proof -
  let ?cs = "map (\<lambda>i. reshape2 r c (take (r * c) (drop (i * (r * c)) xs))) [0..<k]"
  have r3: "reshape3 k r c xs = Inr ?cs" using assms by (simp add: reshape3_def)
  { fix a i j assume a: "a < k" and i: "i < r" and j: "j < c"
    let ?ys = "take (r * c) (drop (a * (r * c)) xs)"
    from a have "Suc a * (r * c) \<le> k * (r * c)" by (intro mult_le_mono1) simp
    with assms have le: "a * (r * c) + r * c \<le> length xs" by (simp add: mult.assoc)
    then have ly: "length ?ys = r * c" by simp
    from index_bound [OF i j] have b: "i * c + j < r * c" .
    from le have le': "a * (r * c) \<le> length xs" by simp
    from b le' have "?ys ! (i * c + j) = xs ! (a * (r * c) + (i * c + j))" by simp
    also have "a * (r * c) + (i * c + j) = (a * r + i) * c + j" by (simp add: algebra_simps)
    finally have e: "?ys ! (i * c + j) = xs ! ((a * r + i) * c + j)" .
    from reshape2_nth [OF ly i j] e a
    have "length (?cs ! a) = r \<and> length (?cs ! a ! i) = c \<and>
          ?cs ! a ! i ! j = xs ! ((a * r + i) * c + j)" by simp }
  note entry = this
  { fix a assume a: "a < k"
    let ?ys = "take (r * c) (drop (a * (r * c)) xs)"
    have "length (?cs ! a) = r" using a by (simp add: reshape2_def) }
  note rows = this
  { fix a i assume a: "a < k" and i: "i < r"
    let ?ys = "take (r * c) (drop (a * (r * c)) xs)"
    from a have "Suc a * (r * c) \<le> k * (r * c)" by (intro mult_le_mono1) simp
    with assms have le: "a * (r * c) + r * c \<le> length xs" by (simp add: mult.assoc)
    then have ly: "length ?ys = r * c" by simp
    from i have "Suc i * c \<le> r * c" by (intro mult_le_mono1) simp
    then have "i * c + c \<le> r * c" by simp
    with ly a i have "length (?cs ! a ! i) = c" by (simp add: reshape2_def) }
  note cols = this
  from r3 entry rows cols show ?thesis by (intro exI [of _ ?cs]) simp
qed

lemma band_check: "(b < 0 \<or> real n \<noteq> sqrt (real_of_int b)) = (b \<noteq> int n * int n)"
proof (cases "b < 0")
  case True
  have "0 \<le> int n * int n" by simp
  with True show ?thesis by linarith
next
  case False
  then show ?thesis by (simp add: sqrt_check)
qed

lemma init_noise_pushbroom:
  assumes "\<not> has_key config ''SNR''" and "getitem config ''noise_file'' = Inr (CStr f)"
    and "\<not> endswith f ''.txt''" and "endswith f ''.mat''"
  shows "init_noise ev config s = init_pushbroom ev f (s\<lparr>noise_file := Some (CStr f)\<rparr>)"
  using assms by (simp add: init_noise_def ebind_def)

text \<open>
  C8. When the constructor reaches the pushbroom branch (the wavelengths and the state
  vector are read, there is no \<open>SNR\<close> key, the noise file ends in \<open>.mat\<close> and is
  loaded): a band count other than \<open>n_chan\<^sup>2\<close> makes the construction fail with
  \<open>ValueError\<close>; with the band count \<open>n_chan\<^sup>2\<close>, \<open>ncols * n_chan * n_chan\<close>
  covariance entries and the rest of the configuration in order, the construction
  succeeds and \<open>covs\<close> holds the entries in the shape \<open>(ncols, n_chan, n_chan)\<close>.
\<close>

theorem pushbroom_band_check:
  assumes "getitem config ''wavelength_file'' = Inr wfile"
    and "load_wavelen ev wfile = Inr (wl, fwhm)"
    and "init_statevector config = Inr sv"
    and "\<not> has_key config ''SNR''"
    and "getitem config ''noise_file'' = Inr (CStr f)"
    and "\<not> endswith f ''.txt''" and "endswith f ''.mat''"
    and "loadmat ev f = Inr D"
  shows "(mat_bands D \<noteq> int (length wl) * int (length wl)
            \<longrightarrow> Instrument ev config = Inl ValueError) \<and>
         (mat_bands D = int (length wl) * int (length wl) \<and>
          length (mat_covariances D) = mat_columns D * length wl * length wl \<and>
          getitem config ''integrations'' = Inr ig \<and>
          init_bval ev config (length wl) = Inr bv
            \<longrightarrow> (\<exists>slf cs. Instrument ev config = Inr slf \<and>
                   model_type slf = Some Pushbroom \<and> n_chan slf = length wl \<and>
                   ncols slf = Some (mat_columns D) \<and> covs slf = Some cs \<and>
                   length cs = mat_columns D \<and>
                   (\<forall>a<mat_columns D. length (cs ! a) = length wl \<and>
                      (\<forall>i<length wl. length (cs ! a ! i) = length wl \<and>
                         (\<forall>j<length wl. cs ! a ! i ! j
                            = mat_covariances D ! ((a * length wl + i) * length wl + j))))))"
proof (intro conjI impI)
  assume "mat_bands D \<noteq> int (length wl) * int (length wl)"
  with assms show "Instrument ev config = Inl ValueError"
    by (cases sv) (simp add: Instrument_def ebind_def init_noise_pushbroom init_pushbroom_def
        band_check)
next
  assume h: "mat_bands D = int (length wl) * int (length wl) \<and>
          length (mat_covariances D) = mat_columns D * length wl * length wl \<and>
          getitem config ''integrations'' = Inr ig \<and>
          init_bval ev config (length wl) = Inr bv"
  then have "length (mat_covariances D) = mat_columns D * length wl * length wl" by simp
  from reshape3_nth [OF this] obtain cs where
    cs: "reshape3 (mat_columns D) (length wl) (length wl) (mat_covariances D) = Inr cs"
    and sh: "length cs = mat_columns D \<and>
           (\<forall>a<mat_columns D. length (cs ! a) = length wl \<and>
              (\<forall>i<length wl. length (cs ! a ! i) = length wl \<and>
                 (\<forall>j<length wl. cs ! a ! i ! j
                    = mat_covariances D ! ((a * length wl + i) * length wl + j))))"
    by blast
  from assms h cs have "\<exists>slf. Instrument ev config = Inr slf \<and>
                   model_type slf = Some Pushbroom \<and> n_chan slf = length wl \<and>
                   ncols slf = Some (mat_columns D) \<and> covs slf = Some cs"
    by (cases sv) (simp add: Instrument_def ebind_def init_noise_pushbroom init_pushbroom_def
        band_check)
  with sh show "\<exists>slf cs. Instrument ev config = Inr slf \<and>
                   model_type slf = Some Pushbroom \<and> n_chan slf = length wl \<and>
                   ncols slf = Some (mat_columns D) \<and> covs slf = Some cs \<and>
                   length cs = mat_columns D \<and>
                   (\<forall>a<mat_columns D. length (cs ! a) = length wl \<and>
                      (\<forall>i<length wl. length (cs ! a ! i) = length wl \<and>
                         (\<forall>j<length wl. cs ! a ! i ! j
                            = mat_covariances D ! ((a * length wl + i) * length wl + j))))"
    by blast
qed

theorem pushbroom_band_check_witness:
  "Instrument mismatch_env pushbroom_config = Inl ValueError \<and>
   Instrument example_env pushbroom_config = Inr pushbroom_instrument \<and>
   covs pushbroom_instrument
     = Some [[[1, 0, 0], [0, 1, 0], [0, 0, 1]], [[3, 2, 0], [2, 3, 0], [0, 0, 5]]]"
proof -
  have e: "endswith ''noise.mat'' ''.mat''" "\<not> endswith ''noise.mat'' ''.txt''"
    by (simp_all add: endswith_def)
  have k: "getitem pushbroom_config ''wavelength_file'' = Inr (CStr ''wavelengths.txt'')"
    "getitem pushbroom_config ''noise_file'' = Inr (CStr ''noise.mat'')"
    "\<not> has_key pushbroom_config ''SNR''"
    "init_statevector pushbroom_config = Inr ([], [], [], [])"
    by (simp_all add: pushbroom_config_def getitem_def has_key_def init_statevector_def)
  have a: "Instrument mismatch_env pushbroom_config = Inl ValueError"
    using pushbroom_band_check [of pushbroom_config "CStr ''wavelengths.txt''" mismatch_env
        "[500, 510, 520]" "[10, 10, 10]" "([], [], [], [])" "''noise.mat''"
        "\<lparr>mat_columns = 2, mat_bands = 8, mat_covariances = [1, 0, 0, 1, 3, 2, 2, 3]\<rparr>"
        "CNum 4" "[0, 0, 0, 0, 0]"] e k
    by (simp add: mismatch_env_def example_env_def)
  show ?thesis
    using a by (simp add: Instrument_pushbroom_config) (simp add: pushbroom_instrument_def)
qed

lemma drop_zeros: "drop n (replicate (n + 2) (0::real)) = [0, 0]"
proof -
  have "drop n (replicate (n + 2) (0::real)) = replicate 2 0" by (simp only: drop_replicate) simp
  also have "\<dots> = [0, 0]" by (simp add: numeral_2_eq_2)
  finally show ?thesis .
qed

lemma take_zeros: "take n (replicate (n + 2) (0::real)) = replicate n 0"
  by (simp only: take_replicate) simp

lemma init_bval_unknowns:
  assumes "getitem config ''unknowns'' = Inr (CDict items)"
  shows "init_bval ev config n =
           ebind (unknowns_loop ev items (replicate n 0)) (\<lambda>rad.
           ebind (if has_key items ''wavelength_calibration_uncertainty''
                  then ebind (getitem items ''wavelength_calibration_uncertainty'') (\<lambda>v.
                       ebind (np_store ev v) (\<lambda>r. Inr ((map sqrt rad @ [0, 0])[n := r])))
                  else Inr (map sqrt rad @ [0, 0])) (\<lambda>bval2.
           if has_key config ''stray_srf_uncertainty''
           then ebind (getitem items ''stray_srf_uncertainty'') (\<lambda>v.
                ebind (np_store ev v) (\<lambda>r. Inr (bval2[n + 1 := r])))
           else Inr bval2))"
proof -
  from assms have hk: "has_key config ''unknowns''"
    by (auto simp: getitem_def has_key_def split: option.splits)
  show ?thesis
    unfolding init_bval_def Let_def take_zeros drop_zeros
    using assms hk by (simp add: ebind_def)
qed

lemma init_bval_spectral:
  assumes "init_bval ev config n = Inr bv"
    and "getitem config ''unknowns'' = Inr (CDict items)"
  shows "(\<forall>v. getitem items ''wavelength_calibration_uncertainty'' = Inr v
              \<longrightarrow> np_store ev v = Inr (bv ! n)) \<and>
         (\<not> has_key items ''wavelength_calibration_uncertainty'' \<longrightarrow> bv ! n = 0)"
proof -
  from assms(1) [unfolded init_bval_unknowns [OF assms(2)]] obtain rad bval2 where
    l: "unknowns_loop ev items (replicate n 0) = Inr rad"
    and b2: "(if has_key items ''wavelength_calibration_uncertainty''
              then ebind (getitem items ''wavelength_calibration_uncertainty'') (\<lambda>v.
                   ebind (np_store ev v) (\<lambda>r. Inr ((map sqrt rad @ [0, 0])[n := r])))
              else Inr (map sqrt rad @ [0, 0])) = Inr bval2"
    and bv: "(if has_key config ''stray_srf_uncertainty''
              then ebind (getitem items ''stray_srf_uncertainty'') (\<lambda>v.
                   ebind (np_store ev v) (\<lambda>r. Inr (bval2[n + 1 := r])))
              else Inr bval2) = Inr bv"
    by (auto simp: ebind_def split: sum.splits)
  from unknowns_loop_length [OF l] have lr: "length rad = n" by simp
  from bv have e: "bv ! n = bval2 ! n"
    by (auto simp: ebind_def split: sum.splits if_splits)
  show ?thesis
  proof (cases "has_key items ''wavelength_calibration_uncertainty''")
    case True
    with b2 obtain v r where "getitem items ''wavelength_calibration_uncertainty'' = Inr v"
      "np_store ev v = Inr r" "bval2 = (map sqrt rad @ [0, 0])[n := r]"
      by (auto simp: ebind_def split: sum.splits)
    with lr e True show ?thesis by (simp add: list_update_append nth_append)
  next
    case False
    with b2 have "bval2 = map sqrt rad @ [0, 0]" by simp
    with lr e False show ?thesis
      by (auto simp: nth_append getitem_def has_key_def split: option.splits)
  qed
qed

lemma init_bval_stray_unset:
  assumes "init_bval ev config n = Inr bv" and "\<not> has_key config ''stray_srf_uncertainty''"
  shows "bv ! (n + 1) = 0"
proof (cases "has_key config ''unknowns''")
  case False
  have "replicate (n + 2) (0::real) ! (n + 1) = 0" by (rule nth_replicate) simp
  with assms False show ?thesis by (simp add: init_bval_def Let_def del: add_2_eq_Suc' add_2_eq_Suc)
next
  case True
  then obtain u where u: "getitem config ''unknowns'' = Inr u"
    by (auto simp: getitem_def has_key_def split: option.splits)
  from assms(1) True u obtain items where "u = CDict items"
    by (cases u) (auto simp: init_bval_def ebind_def Let_def)
  with u have g: "getitem config ''unknowns'' = Inr (CDict items)" by simp
  from assms(1) [unfolded init_bval_unknowns [OF g]] assms(2) obtain rad where
    l: "unknowns_loop ev items (replicate n 0) = Inr rad"
    and b2: "(if has_key items ''wavelength_calibration_uncertainty''
              then ebind (getitem items ''wavelength_calibration_uncertainty'') (\<lambda>v.
                   ebind (np_store ev v) (\<lambda>r. Inr ((map sqrt rad @ [0, 0])[n := r])))
              else Inr (map sqrt rad @ [0, 0])) = Inr bv"
    by (auto simp: ebind_def split: sum.splits)
  from unknowns_loop_length [OF l] have lr: "length rad = n" by simp
  with b2 show ?thesis
    by (auto simp: ebind_def nth_append list_update_append split: sum.splits if_splits)
qed

text \<open>
  C9. The configuration \<open>stray_config\<close> has the key \<open>stray_srf_uncertainty\<close> in its
  \<open>unknowns\<close> section and not at its top level. The constructor leaves
  \<open>bval[n_chan + 1]\<close> at zero, because it looks for the key in \<open>config\<close>; the value
  \<open>0.2\<close> enters the root sum square of the first \<open>n_chan\<close> entries instead. (The
  lemma \<open>init_bval_spectral\<close> shows that the wavelength-calibration uncertainty is
  copied into \<open>bval[n_chan]\<close> when its key is in the section, and
  \<open>init_bval_stray_unset\<close> that \<open>bval[n_chan + 1]\<close> is zero whatever the section
  holds, when the top level lacks the key.)
\<close>

theorem stray_uncertainty_not_copied:
  "getitem stray_config ''unknowns'' = Inr (CDict [(''stray_srf_uncertainty'', CNum (1 / 5))]) \<and>
   Instrument example_env stray_config
     = Inr (snr_instrument\<lparr>bval := [1 / 5, 1 / 5, 1 / 5, 0, 0]\<rparr>)"
  by (simp add: Instrument_def example_env_def stray_config_def snr_instrument_def ebind_def
      getitem_def has_key_def init_statevector_def init_noise_def py_float_def np_store_def init_bval_def
      numeral_eq_Suc special_unknowns_def unknown_value_def add_squares_def
      power2_eq_square sqrt_25th)

subsection \<open>The prior covariance and the Jacobian of the state\<close>

lemma Sa_constructed:
  "Instrument ev config = Inr slf \<Longrightarrow>
     Sa slf = (if n_state slf = 0 then Inr [] else Inl AttributeError)"
  using Instrument_invariant [of ev config slf] by (simp add: Sa_def ebind_def attr_def)

text \<open>
  C3. For the instance built from \<open>statevec_config\<close>, with one state variable of
  scale 1, \<open>Sa\<close> does not return the \<open>1 \<times> 1\<close> matrix of the squared scale: it
  raises \<open>AttributeError\<close>, because it reads \<open>prior_sigma\<close>, which the constructor
  never assigns. (The lemma \<open>Sa_constructed\<close> shows this for every constructed
  instance with \<open>n_state > 0\<close>, and the \<open>0 \<times> 0\<close> matrix for \<open>n_state = 0\<close>.)
\<close>

theorem Sa_prior_sigma_unset:
  "Instrument example_env statevec_config = Inr statevec_instrument \<and>
   n_state statevec_instrument = 1 \<and>
   scale statevec_instrument = [CNum 1] \<and>
   Sa statevec_instrument = Inl AttributeError"
  by (simp add: Instrument_statevec_config)
     (simp add: statevec_instrument_def snr_instrument_def Sa_def ebind_def attr_def)

lemma dmeas_dinstrument_never_returns:
  "n_state slf \<noteq> 0 \<Longrightarrow> dmeas_dinstrument ev slf x wl_hi rdn_hi \<noteq> Inr K"
  by (auto simp: dmeas_dinstrument_def ebind_def Let_def split: sum.splits)

lemma dmeas_dinstrument_no_state:
  "n_state slf = 0 \<Longrightarrow> dmeas_dinstrument ev slf x wl_hi rdn_hi = Inr (replicate (n_chan slf) [])"
  by (simp add: dmeas_dinstrument_def)

text \<open>
  C2. For the instance built from \<open>statevec_config\<close>, with one state variable,
  \<open>dmeas_dinstrument\<close> does not return the matrix of difference quotients: after the
  first sample it raises \<open>TypeError\<close>, because the loop runs over
  \<open>range(self.statevec)\<close>, the range of a list. (The lemma
  \<open>dmeas_dinstrument_never_returns\<close> shows that no call returns when
  \<open>n_state > 0\<close>, and \<open>dmeas_dinstrument_no_state\<close> the \<open>n_chan \<times> 0\<close> matrix for
  \<open>n_state = 0\<close>.)
\<close>

theorem dmeas_dinstrument_range_of_list:
  "Instrument example_env statevec_config = Inr statevec_instrument \<and>
   n_state statevec_instrument = 1 \<and>
   dmeas_dinstrument example_env statevec_instrument [0] [500, 510, 520] (Arr1 [1, 2, 4])
     = Inl TypeError"
  by (simp add: Instrument_statevec_config)
     (simp add: statevec_instrument_def snr_instrument_def dmeas_dinstrument_def ebind_def
        sample_def fast_path_def calibration_def state_at_def example_env_def)

end
